theory Spec2Isabelle
  imports Main
begin

section \<open>Strings\<close>

text \<open>
  JavaScript strings are modelled as \<^typ>\<open>string\<close>; a character stands for one code unit
  in the Latin-1 range.  \<open>trim\<close> removes the white space and line terminators of that range
  (TAB, LF, VT, FF, CR, SP, NBSP) from both ends.
\<close>

definition is_ws :: "char \<Rightarrow> bool" where
  "is_ws c = (c \<in> set [CHR 0x09, CHR 0x0A, CHR 0x0B, CHR 0x0C, CHR 0x0D, CHR 0x20, CHR 0xA0])"

definition trim :: "string \<Rightarrow> string" where
  "trim s = rev (dropWhile is_ws (rev (dropWhile is_ws s)))"

definition startsWith :: "string \<Rightarrow> string \<Rightarrow> bool" where
  "startsWith s p = (take (length p) s = p)"

definition endsWith :: "string \<Rightarrow> string \<Rightarrow> bool" where
  "endsWith s p = (length p \<le> length s \<and> drop (length s - length p) s = p)"

text \<open>\<open>s.split(c)\<close> for a one-character separator: the empty string gives one empty piece.\<close>

fun split_chr :: "char \<Rightarrow> string \<Rightarrow> string list" where
  "split_chr c [] = [[]]"
| "split_chr c (x # xs) =
     (if x = c then [] # split_chr c xs
      else (case split_chr c xs of
              [] \<Rightarrow> [[x]]
            | w # ws \<Rightarrow> (x # w) # ws))"

text \<open>\<open>xs.join(c)\<close>.\<close>

fun join_chr :: "char \<Rightarrow> string list \<Rightarrow> string" where
  "join_chr c [] = []"
| "join_chr c [w] = w"
| "join_chr c (w # v # ws) = w @ c # join_chr c (v # ws)"

text \<open>\<open>/^\d+$/.test(s)\<close>.\<close>

definition is_digit :: "char \<Rightarrow> bool" where
  "is_digit c = (48 \<le> (of_char c :: nat) \<and> (of_char c :: nat) \<le> 57)"

definition isnum :: "string \<Rightarrow> bool" where
  "isnum s = (s \<noteq> [] \<and> list_all is_digit s)"

text \<open>The value of a string of decimal digits.\<close>

definition digits_value :: "string \<Rightarrow> nat" where
  "digits_value s = foldl (\<lambda>n c. 10 * n + ((of_char c :: nat) - 48)) 0 s"

section \<open>The default compiler: tokens\<close>

datatype opkind =
  Set | Delete | Get | Inc | Dec | Eq | Neq | Gt | Ge | Lt | Le | Label | Goto | Jne | Je

text \<open>
  A token is \<open>{type, value}\<close> for comments, calls and references, and \<open>{type, arguments: []}\<close>
  for the fifteen operation words; the latter has no \<open>value\<close> property.
\<close>

datatype token = Comment string | Call string | Reference string | Op opkind

fun token_value :: "token \<Rightarrow> string option" where
  "token_value (Comment v) = Some v"
| "token_value (Call v) = Some v"
| "token_value (Reference v) = Some v"
| "token_value (Op k) = None"

definition op_words :: "(string \<times> opkind) list" where
  "op_words =
     [(''set'', Set), (''delete'', Delete), (''get'', Get), (''inc'', Inc), (''dec'', Dec),
      (''eq'', Eq), (''neq'', Neq), (''gt'', Gt), (''ge'', Ge), (''lt'', Lt), (''le'', Le),
      (''label'', Label), (''goto'', Goto), (''jne'', Jne), (''je'', Je)]"

definition getTokenFromWord :: "string \<Rightarrow> token" where
  "getTokenFromWord word =
     (if startsWith word ''//'' then Comment word
      else (case map_of op_words word of
              Some k \<Rightarrow> Op k
            | None \<Rightarrow>
                if startsWith word ''$'' then Call (drop 1 word)
                else Reference word))"

text \<open>
  The inner loop of \<open>compile\<close> over the words of one line.  Its state is the token vector built
  so far, \<open>currentString\<close> and \<open>currentQuote\<close> (\<open>None\<close> for \<open>undefined\<close>).
\<close>

definition dquote :: char where "dquote = CHR 0x22"
definition squote :: char where "squote = CHR 0x27"

fun compile_word :: "token list \<times> string \<times> char option \<Rightarrow> string \<Rightarrow> token list \<times> string \<times> char option" where
  "compile_word (tokens, currentString, None) word =
     (if startsWith word [dquote] then
        (if endsWith word [dquote] then (tokens @ [getTokenFromWord word], word, None)
         else (tokens, word, Some dquote))
      else if startsWith word [squote] then
        (if endsWith word [squote] then (tokens @ [getTokenFromWord word], word, None)
         else (tokens, word, Some squote))
      else (tokens @ [getTokenFromWord word], currentString, None))"
| "compile_word (tokens, currentString, Some q) word =
     (let cs = currentString @ '' '' @ word in
      if endsWith word [q] then (tokens @ [getTokenFromWord cs], cs, None)
      else (tokens, cs, Some q))"

definition compile_line :: "string \<Rightarrow> token list" where
  "compile_line line = fst (foldl compile_word ([], [], None) (split_chr CHR '' '' (trim line)))"

definition compile :: "string list \<Rightarrow> token list list" where
  "compile pipeline = map compile_line pipeline"

section \<open>Values and the object store\<close>

text \<open>
  The values a pipeline handles.  Numbers are the integer-valued doubles (every number the
  interpreter itself creates is one: a parsed digit string, a label index, a cursor) together
  with \<open>NaN\<close>, with exact arithmetic: magnitudes from \<open>2^53\<close> on, where doubles round, are
  outside the model; objects live in a store and are handled through references, so that two paths
  to one object see each other's writes.  A function value is a handle into the host's table
  of native functions; \<open>BoundFn f t\<close> is \<open>f.bind(t)\<close>.  The values that every object inherits
  are there too: \<open>BuiltinFn n\<close> is the function of the language's library whose \<open>name\<close> is \<open>n\<close>
  (\<open>Object\<close>, \<open>toString\<close>, the constructor of a class), \<open>BoundBuiltin n t\<close> is that function
  bound to \<open>t\<close>, and \<open>Prototype c\<close> is the object \<open>c.prototype\<close>.
\<close>

datatype jsval =
    Undefined | Null | Bool bool | Num int | NaN | Str string | Ref nat
  | Fn nat | BoundFn nat jsval
  | BuiltinFn string | BoundBuiltin string jsval | Prototype string

text \<open>
  An object is the name of its class, the constructor whose prototype it inherits from
  (\<open>Object\<close> for an object literal), and its own enumerable properties in insertion order.
  Keys are taken not to be canonical array indices (which \<open>Object.keys\<close> would list first).
\<close>

record jsobject =
  ctor :: string
  props :: "(string \<times> jsval) list"

type_synonym heap = "jsobject list"

datatype error =
    PipelineDepthExceeded
  | PipelineNotFound
  | PathNotFound string
  | MethodNotFound
  | TypeError
  | Thrown jsval
  | Unmodelled

text \<open>
  \<open>TypeError\<close> is the host's error for reading a property of \<open>undefined\<close> or \<open>null\<close>, calling
  a non-function and writing a property of a primitive (the classes are strict-mode code);
  \<open>Thrown\<close> is an exception of a native function; \<open>Unmodelled\<close> marks the host coercions
  this development leaves out (string to number, object to primitive, identity of bound
  functions, calls of the library's functions, a change of an object's prototype).
\<close>

fun truthy :: "jsval \<Rightarrow> bool" where
  "truthy Undefined = False"
| "truthy Null = False"
| "truthy (Bool b) = b"
| "truthy (Num n) = (n \<noteq> 0)"
| "truthy NaN = False"
| "truthy (Str s) = (s \<noteq> [])"
| "truthy (Ref a) = True"
| "truthy (Fn f) = True"
| "truthy (BoundFn f t) = True"
| "truthy (BuiltinFn n) = True"
| "truthy (BoundBuiltin n t) = True"
| "truthy (Prototype c) = True"

fun is_function :: "jsval \<Rightarrow> bool" where
  "is_function (Fn f) = True"
| "is_function (BoundFn f t) = True"
| "is_function (BuiltinFn n) = True"
| "is_function (BoundBuiltin n t) = True"
| "is_function v = False"

fun is_object :: "jsval \<Rightarrow> bool" where
  "is_object (Ref a) = True"
| "is_object (Prototype c) = True"
| "is_object v = is_function v"

fun is_nullish :: "jsval \<Rightarrow> bool" where
  "is_nullish Undefined = True"
| "is_nullish Null = True"
| "is_nullish v = False"

subsection \<open>Property maps\<close>

text \<open>\<open>o[k] = v\<close> on a property list: an existing key keeps its place, a new key goes last.\<close>

fun obj_set :: "string \<Rightarrow> 'v \<Rightarrow> (string \<times> 'v) list \<Rightarrow> (string \<times> 'v) list" where
  "obj_set k v [] = [(k, v)]"
| "obj_set k v (p # ps) = (if fst p = k then (k, v) # ps else p # obj_set k v ps)"

definition obj_delete :: "string \<Rightarrow> (string \<times> 'v) list \<Rightarrow> (string \<times> 'v) list" where
  "obj_delete k ps = filter (\<lambda>p. fst p \<noteq> k) ps"

section \<open>The host: native functions, prototypes and the wildcard matcher\<close>

text \<open>
  What \<open>resolvePathWithType\<close> returns: \<open>{type, subtype?, src, value, context}\<close>.  Its
  \<open>container\<close> field is always the resolving container and is left out.
\<close>

datatype rtype = RLiteralNumber | RLiteralString | RLiteralBoolean | RReference | RFunction

record resolved =
  r_type :: rtype
  r_src :: string
  r_value :: jsval
  r_context :: jsval

text \<open>An argument of a native call: a value, a resolved path, or the container itself.\<close>

datatype arg = AVal jsval | ARes resolved | AContainer

text \<open>
  The code outside this file is a parameter of the development: \<open>compareWildcards\<close> of
  \<open>./helper\<close>, and the native functions and classes that a container holds: what a call
  (\<open>call_fn f this args\<close>) and a construction (\<open>new_fn f args\<close>) do to the store and return
  (\<open>Inr\<close>) or throw (\<open>Inl\<close>), and the \<open>name\<close> of a function.  So are the prototypes other than
  \<open>Object.prototype\<close>: \<open>members c k\<close> is the property \<open>k\<close> that the values of class \<open>c\<close> inherit
  from \<open>c.prototype\<close> and the prototypes behind it, short of \<open>Object.prototype\<close> (the methods
  of a class, those of \<open>String\<close>, \<open>Number\<close>, \<open>Boolean\<close> and \<open>Function\<close>), and \<open>statics f k\<close> is the
  own property \<open>k\<close> of the function \<open>f\<close>.  These members are values: a class with accessor
  properties (getters and setters) is outside the model.
\<close>

record host =
  compareWildcards :: "string \<Rightarrow> string \<Rightarrow> bool"
  call_fn :: "nat \<Rightarrow> jsval \<Rightarrow> arg list \<Rightarrow> heap \<Rightarrow> (jsval + jsval) \<times> heap"
  new_fn :: "nat \<Rightarrow> arg list \<Rightarrow> heap \<Rightarrow> (jsval + jsval) \<times> heap"
  fn_name :: "nat \<Rightarrow> string"
  members :: "string \<Rightarrow> string \<Rightarrow> jsval option"
  statics :: "jsval \<Rightarrow> string \<Rightarrow> jsval option"

section \<open>Properties of values\<close>

subsection \<open>Reading, writing and deleting properties\<close>

definition canonical_index :: "string \<Rightarrow> bool" where
  "canonical_index k = (isnum k \<and> (k = ''0'' \<or> hd k \<noteq> CHR ''0''))"

definition str_prop :: "string \<Rightarrow> string \<Rightarrow> jsval option" where
  "str_prop s k =
     (if k = ''length'' then Some (Num (int (length s)))
      else if canonical_index k \<and> digits_value k < length s then Some (Str [s ! digits_value k])
      else None)"

text \<open>
  The members of \<open>Object.prototype\<close>, which every value inherits: \<open>constructor\<close> (for a value
  of class \<open>c\<close> it is the constructor \<open>c\<close>, whose \<open>prototype\<close> stands before \<open>Object.prototype\<close>
  in the chain), the accessor \<open>__proto__\<close>, which yields the prototype, and ten functions.
\<close>

definition object_prototype_keys :: "string list" where
  "object_prototype_keys =
     [''constructor'', ''__defineGetter__'', ''__defineSetter__'', ''hasOwnProperty'',
      ''__lookupGetter__'', ''__lookupSetter__'', ''isPrototypeOf'', ''propertyIsEnumerable'',
      ''toString'', ''valueOf'', ''__proto__'', ''toLocaleString'']"

definition object_prototype :: "string \<Rightarrow> string \<Rightarrow> jsval option" where
  "object_prototype c k =
     (if k = ''constructor'' then Some (BuiltinFn c)
      else if k = ''__proto__'' then Some (Prototype c)
      else if k \<in> set object_prototype_keys then Some (BuiltinFn k)
      else None)"

text \<open>
  What a value of class \<open>c\<close> inherits under the key \<open>k\<close>: the member of its class, if the host
  has one, else the member of \<open>Object.prototype\<close>, else \<open>undefined\<close>.  The class \<open>Object\<close> has
  \<open>Object.prototype\<close> alone.
\<close>

definition inherited :: "host \<Rightarrow> string \<Rightarrow> string \<Rightarrow> jsval" where
  "inherited E c k =
     (case (if c = ''Object'' then None else members E c k) of
        Some v \<Rightarrow> v
      | None \<Rightarrow> (case object_prototype c k of Some v \<Rightarrow> v | None \<Rightarrow> Undefined))"

text \<open>The same for a function, whose own properties come first.\<close>

definition function_prop :: "host \<Rightarrow> jsval \<Rightarrow> string \<Rightarrow> jsval" where
  "function_prop E f k =
     (case statics E f k of Some v \<Rightarrow> v | None \<Rightarrow> inherited E ''Function'' k)"

text \<open>
  \<open>v[k]\<close> for a value that is neither \<open>undefined\<close> nor \<open>null\<close>: an own property, else what the
  prototype chain gives.  The prototype of \<open>Object.prototype\<close> is \<open>null\<close>.
\<close>

fun get_prop :: "host \<Rightarrow> heap \<Rightarrow> jsval \<Rightarrow> string \<Rightarrow> jsval" where
  "get_prop E h (Ref a) k =
     (if a < length h then
        (case map_of (props (h ! a)) k of
           Some v \<Rightarrow> v
         | None \<Rightarrow> inherited E (ctor (h ! a)) k)
      else Undefined)"
| "get_prop E h (Str s) k =
     (case str_prop s k of Some v \<Rightarrow> v | None \<Rightarrow> inherited E ''String'' k)"
| "get_prop E h (Num n) k = inherited E ''Number'' k"
| "get_prop E h NaN k = inherited E ''Number'' k"
| "get_prop E h (Bool b) k = inherited E ''Boolean'' k"
| "get_prop E h (Fn f) k =
     (if k = ''name'' then Str (fn_name E f) else function_prop E (Fn f) k)"
| "get_prop E h (BoundFn f t) k = function_prop E (BoundFn f t) k"
| "get_prop E h (BuiltinFn n) k =
     (if k = ''name'' then Str n else function_prop E (BuiltinFn n) k)"
| "get_prop E h (BoundBuiltin n t) k = function_prop E (BoundBuiltin n t) k"
| "get_prop E h (Prototype c) k =
     (if k = ''__proto__'' then (if c = ''Object'' then Null else Prototype ''Object'')
      else inherited E c k)"
| "get_prop E h Undefined k = Undefined"
| "get_prop E h Null k = Undefined"

text \<open>\<open>v[k]\<close> for any value: the host throws on \<open>undefined\<close> and \<open>null\<close>.\<close>

definition read_prop :: "host \<Rightarrow> heap \<Rightarrow> jsval \<Rightarrow> string \<Rightarrow> error + jsval" where
  "read_prop E h v k = (if is_nullish v then Inl TypeError else Inr (get_prop E h v k))"

text \<open>
  \<open>v[k] = x\<close>, which makes or changes an own property.  The key \<open>__proto__\<close>, unless the object
  has it as an own property, is the accessor of \<open>Object.prototype\<close>: its setter changes the
  prototype when \<open>x\<close> is an object or \<open>null\<close>, and does nothing otherwise; no own property is
  made.
\<close>

fun write_prop :: "heap \<Rightarrow> jsval \<Rightarrow> string \<Rightarrow> jsval \<Rightarrow> error + heap" where
  "write_prop h (Ref a) k x =
     (if a < length h then
        (if k = ''__proto__'' \<and> map_of (props (h ! a)) k = None then
           (if is_object x \<or> x = Null then Inl Unmodelled else Inr h)
         else Inr (h[a := (h ! a)\<lparr>props := obj_set k x (props (h ! a))\<rparr>]))
      else Inl Unmodelled)"
| "write_prop h (Fn f) k x = Inl Unmodelled"
| "write_prop h (BoundFn f t) k x = Inl Unmodelled"
| "write_prop h (BuiltinFn n) k x = Inl Unmodelled"
| "write_prop h (BoundBuiltin n t) k x = Inl Unmodelled"
| "write_prop h (Prototype c) k x = Inl Unmodelled"
| "write_prop h v k x = Inl TypeError"

text \<open>\<open>delete v[k]\<close>.\<close>

fun delete_prop :: "heap \<Rightarrow> jsval \<Rightarrow> string \<Rightarrow> error + heap" where
  "delete_prop h (Ref a) k =
     (if a < length h then Inr (h[a := (h ! a)\<lparr>props := obj_delete k (props (h ! a))\<rparr>])
      else Inl Unmodelled)"
| "delete_prop h Undefined k = Inl TypeError"
| "delete_prop h Null k = Inl TypeError"
| "delete_prop h (Str s) k = (if str_prop s k = None then Inr h else Inl TypeError)"
| "delete_prop h (Fn f) k = Inl Unmodelled"
| "delete_prop h (BoundFn f t) k = Inl Unmodelled"
| "delete_prop h (BuiltinFn n) k = Inl Unmodelled"
| "delete_prop h (BoundBuiltin n t) k = Inl Unmodelled"
| "delete_prop h (Prototype c) k = Inl Unmodelled"
| "delete_prop h v k = Inr h"

text \<open>A new object literal: it is placed at the end of the store.\<close>

definition alloc :: "heap \<Rightarrow> string \<Rightarrow> (string \<times> jsval) list \<Rightarrow> jsval \<times> heap" where
  "alloc h c ps = (Ref (length h), h @ [\<lparr>ctor = c, props = ps\<rparr>])"

subsection \<open>Host operators\<close>

function show_nat :: "nat \<Rightarrow> string" where
  "show_nat n =
     (if n < 10 then [char_of (48 + n)]
      else show_nat (n div 10) @ [char_of (48 + n mod 10)])"
  by pat_completeness auto
termination
  by (relation "measure (\<lambda>n. n)") auto

definition show_int :: "int \<Rightarrow> string" where
  "show_int i = (if i < 0 then CHR ''-'' # show_nat (nat (- i)) else show_nat (nat i))"

text \<open>\<open>ToNumber\<close> on the primitives that need no parsing; the inner \<open>None\<close> is \<open>NaN\<close>.\<close>

fun to_number :: "jsval \<Rightarrow> error + int option" where
  "to_number Undefined = Inr None"
| "to_number Null = Inr (Some 0)"
| "to_number (Bool b) = Inr (Some (if b then 1 else 0))"
| "to_number (Num n) = Inr (Some n)"
| "to_number NaN = Inr None"
| "to_number v = Inl Unmodelled"

fun of_number :: "int option \<Rightarrow> jsval" where
  "of_number None = NaN"
| "of_number (Some n) = Num n"

fun to_string :: "jsval \<Rightarrow> error + string" where
  "to_string Undefined = Inr ''undefined''"
| "to_string Null = Inr ''null''"
| "to_string (Bool b) = Inr (if b then ''true'' else ''false'')"
| "to_string (Num n) = Inr (show_int n)"
| "to_string NaN = Inr ''NaN''"
| "to_string (Str s) = Inr s"
| "to_string v = Inl Unmodelled"

fun is_str :: "jsval \<Rightarrow> bool" where
  "is_str (Str s) = True"
| "is_str v = False"

text \<open>\<open>a + b\<close>: concatenation as soon as one side is a string, numeric addition otherwise.\<close>

definition js_add :: "jsval \<Rightarrow> jsval \<Rightarrow> error + jsval" where
  "js_add a b =
     (if is_object a \<or> is_object b then Inl Unmodelled
      else if is_str a \<or> is_str b then
        (case (to_string a, to_string b) of
           (Inr x, Inr y) \<Rightarrow> Inr (Str (x @ y))
         | _ \<Rightarrow> Inl Unmodelled)
      else
        (case (to_number a, to_number b) of
           (Inr (Some x), Inr (Some y)) \<Rightarrow> Inr (Num (x + y))
         | (Inr _, Inr _) \<Rightarrow> Inr NaN
         | _ \<Rightarrow> Inl Unmodelled))"

text \<open>\<open>a - b\<close>.\<close>

definition js_sub :: "jsval \<Rightarrow> jsval \<Rightarrow> error + jsval" where
  "js_sub a b =
     (case (to_number a, to_number b) of
        (Inr (Some x), Inr (Some y)) \<Rightarrow> Inr (Num (x - y))
      | (Inr _, Inr _) \<Rightarrow> Inr NaN
      | _ \<Rightarrow> Inl Unmodelled)"

text \<open>
  \<open>a === b\<close>.  Every \<open>bind\<close> makes a new function object, whose identity is not modelled, nor
  is that of the library's values.
\<close>

fun opaque :: "jsval \<Rightarrow> bool" where
  "opaque (BoundFn f t) = True"
| "opaque (BuiltinFn n) = True"
| "opaque (BoundBuiltin n t) = True"
| "opaque (Prototype c) = True"
| "opaque v = False"

definition strict_eq :: "jsval \<Rightarrow> jsval \<Rightarrow> error + bool" where
  "strict_eq a b =
     (if opaque a \<or> opaque b then Inl Unmodelled
      else if a = NaN \<or> b = NaN then Inr False
      else Inr (a = b))"

text \<open>
  \<open>a < b\<close>: two strings are compared by code units, anything else as numbers, and a
  comparison with \<open>NaN\<close> is false.
\<close>

fun str_less :: "string \<Rightarrow> string \<Rightarrow> bool" where
  "str_less [] [] = False"
| "str_less [] (y # ys) = True"
| "str_less (x # xs) [] = False"
| "str_less (x # xs) (y # ys) =
     (if (of_char x :: nat) < of_char y then True
      else if (of_char y :: nat) < of_char x then False
      else str_less xs ys)"

definition js_lt :: "jsval \<Rightarrow> jsval \<Rightarrow> error + bool" where
  "js_lt a b =
     (case (a, b) of
        (Str x, Str y) \<Rightarrow> Inr (str_less x y)
      | _ \<Rightarrow>
        (case (to_number a, to_number b) of
           (Inr (Some x), Inr (Some y)) \<Rightarrow> Inr (x < y)
         | (Inr _, Inr _) \<Rightarrow> Inr False
         | _ \<Rightarrow> Inl Unmodelled))"

text \<open>\<open>a <= b\<close>.\<close>

definition js_le :: "jsval \<Rightarrow> jsval \<Rightarrow> error + bool" where
  "js_le a b =
     (case (a, b) of
        (Str x, Str y) \<Rightarrow> Inr (\<not> str_less y x)
      | _ \<Rightarrow>
        (case (to_number a, to_number b) of
           (Inr (Some x), Inr (Some y)) \<Rightarrow> Inr (x \<le> y)
         | (Inr _, Inr _) \<Rightarrow> Inr False
         | _ \<Rightarrow> Inl Unmodelled))"

section \<open>Calls and constructions\<close>

text \<open>\<open>callee.call(this, ...args)\<close>; a bound function ignores the receiver.\<close>

fun native_result :: "(jsval + jsval) \<times> heap \<Rightarrow> (error + jsval) \<times> heap" where
  "native_result (Inl v, h) = (Inl (Thrown v), h)"
| "native_result (Inr v, h) = (Inr v, h)"

fun invoke :: "host \<Rightarrow> jsval \<Rightarrow> jsval \<Rightarrow> arg list \<Rightarrow> heap \<Rightarrow> (error + jsval) \<times> heap" where
  "invoke E (Fn f) this args h = native_result (call_fn E f this args h)"
| "invoke E (BoundFn f t) this args h = native_result (call_fn E f t args h)"
| "invoke E (BuiltinFn n) this args h = (Inl Unmodelled, h)"
| "invoke E (BoundBuiltin n t) this args h = (Inl Unmodelled, h)"
| "invoke E v this args h = (Inl TypeError, h)"

text \<open>\<open>new callee(...args)\<close>.\<close>

fun construct :: "host \<Rightarrow> jsval \<Rightarrow> arg list \<Rightarrow> heap \<Rightarrow> (error + jsval) \<times> heap" where
  "construct E (Fn f) args h = native_result (new_fn E f args h)"
| "construct E (BoundFn f t) args h = native_result (new_fn E f args h)"
| "construct E (BuiltinFn n) args h = (Inl Unmodelled, h)"
| "construct E (BoundBuiltin n t) args h = (Inl Unmodelled, h)"
| "construct E v args h = (Inl TypeError, h)"

section \<open>The container\<close>

record item =
  it_name :: string
  isSingleton :: bool
  it_instance :: jsval

text \<open>
  Only the default compiler is part of the sources; the \<open>compilers\<close> map holds it under
  \<open>default\<close> (its type makes that key mandatory).
\<close>

datatype compiler = DefaultCompiler

record pipeline =
  pl_pipeline :: "string list"
  pl_compiler :: compiler
  pl_compiled :: "token list list"

text \<open>
  The fields of a container but \<open>parent\<close>, each with its own keys in insertion order.
  \<open>bestKeys\<close> and \<open>cachePipelines\<close> are \<open>cache.bestKeys\<close> and \<open>cache.pipelines\<close>; a cached
  \<open>None\<close> is the \<open>null\<close> of a remembered miss, a missing key is \<open>undefined\<close>.
\<close>

record cfields =
  classes :: "(string \<times> jsval) list"
  factory :: "(string \<times> item) list"
  pipelines :: "(string \<times> pipeline) list"
  configurations :: "(string \<times> jsval) list"
  compilers :: "(string \<times> compiler) list"
  bestKeys :: "(string \<times> string option) list"
  cachePipelines :: "(string \<times> pipeline option) list"

datatype container = Container (own: cfields) (parent: "container option")

text \<open>\<open>new Container(true)\<close>: no logger is installed.\<close>

definition new_Container :: container where
  "new_Container =
     Container \<lparr>classes = [], factory = [], pipelines = [], configurations = [],
                compilers = [(''default'', DefaultCompiler)], bestKeys = [],
                cachePipelines = []\<rparr> None"

fun upd_own :: "(cfields \<Rightarrow> cfields) \<Rightarrow> container \<Rightarrow> container" where
  "upd_own f (Container c p) = Container (f c) p"

text \<open>
  The maps of a container are object literals, so that \<open>map[k]\<close> finds, besides the own
  keys, the members of \<open>Object.prototype\<close>.
\<close>

datatype 'a entry = Own 'a | Inherited jsval | Absent

definition plain_lookup :: "(string \<times> 'a) list \<Rightarrow> string \<Rightarrow> 'a entry" where
  "plain_lookup m k =
     (case map_of m k of
        Some v \<Rightarrow> Own v
      | None \<Rightarrow> (case object_prototype ''Object'' k of Some b \<Rightarrow> Inherited b | None \<Rightarrow> Absent))"

definition plain_get :: "(string \<times> jsval) list \<Rightarrow> string \<Rightarrow> jsval" where
  "plain_get m k = (case plain_lookup m k of Own v \<Rightarrow> v | Inherited b \<Rightarrow> b | Absent \<Rightarrow> Undefined)"

text \<open>
  \<open>addClass\<close>: the key is the name given or else the \<open>name\<close> of the class, which is a function
  (its type is a constructor type); for any other value the key is taken to be \<open>undefined\<close>,
  the key that a missing \<open>name\<close> makes.
\<close>

definition addClass :: "host \<Rightarrow> container \<Rightarrow> jsval \<Rightarrow> string \<Rightarrow> container" where
  "addClass E c clazz name =
     (let key = (if name \<noteq> [] then name
                 else (case clazz of
                         Fn f \<Rightarrow> fn_name E f
                       | BoundFn f t \<Rightarrow> fn_name E f
                       | BuiltinFn n \<Rightarrow> n
                       | _ \<Rightarrow> ''undefined''))
      in upd_own (\<lambda>fs. fs\<lparr>classes := obj_set key clazz (classes fs)\<rparr>) c)"

subsection \<open>register, getBestKey, get\<close>

text \<open>
  \<open>register\<close> empties \<open>cache.bestKeys\<close> first; a singleton class is constructed at once,
  with no arguments.  The result carries the error of a throwing constructor.  Under the
  name \<open>__proto__\<close> the assignment \<open>this.factory[name] = item\<close> makes no key: it changes the
  prototype of the factory.
\<close>

definition store_item :: "container \<Rightarrow> string \<Rightarrow> bool \<Rightarrow> jsval \<Rightarrow> heap \<Rightarrow> error option \<times> container \<times> heap" where
  "store_item c1 name isSingleton' inst h =
     (if name = ''__proto__'' then (Some Unmodelled, c1, h)
      else (None,
            upd_own (\<lambda>fs. fs\<lparr>factory :=
               obj_set name \<lparr>it_name = name, isSingleton = isSingleton', it_instance = inst\<rparr>
                 (factory fs)\<rparr>) c1,
            h))"

definition register :: "host \<Rightarrow> container \<Rightarrow> string \<Rightarrow> jsval \<Rightarrow> bool \<Rightarrow> heap \<Rightarrow> error option \<times> container \<times> heap" where
  "register E c name Clazz isSingleton' h =
     (let c1 = upd_own (\<lambda>fs. fs\<lparr>bestKeys := []\<rparr>) c
      in if isSingleton' then
           (if is_function Clazz then
              (case construct E Clazz [] h of
                 (Inl e, h') \<Rightarrow> (Some e, c1, h')
               | (Inr inst, h') \<Rightarrow> store_item c1 name isSingleton' inst h')
            else store_item c1 name isSingleton' Clazz h)
         else
           (if is_function Clazz then store_item c1 name isSingleton' Clazz h
            else
              (case read_prop E h Clazz ''constructor'' of
                 Inl e \<Rightarrow> (Some e, c1, h)
               | Inr k \<Rightarrow> store_item c1 name isSingleton' k h)))"

text \<open>The loop of \<open>getBestKey\<close> over \<open>Object.keys(this.factory)\<close>.\<close>

fun first_match :: "(string \<Rightarrow> bool) \<Rightarrow> string list \<Rightarrow> string option" where
  "first_match P [] = None"
| "first_match P (k # ks) = (if P k then Some k else first_match P ks)"

text \<open>
  \<open>getBestKey\<close> returns what the cache holds under the name unless that is \<open>undefined\<close>: a
  key, the \<open>null\<close> of a remembered miss, or a member of \<open>Object.prototype\<close>.  Otherwise it
  returns, and caches, the first key that matches; a miss caches \<open>null\<close> and returns
  \<open>undefined\<close>.
\<close>

definition getBestKey :: "host \<Rightarrow> cfields \<Rightarrow> string \<Rightarrow> jsval \<times> cfields" where
  "getBestKey E c name =
     (case plain_lookup (bestKeys c) name of
        Own (Some k) \<Rightarrow> (Str k, c)
      | Own None \<Rightarrow> (Null, c)
      | Inherited b \<Rightarrow> (b, c)
      | Absent \<Rightarrow>
          (case first_match (compareWildcards E name) (map fst (factory c)) of
             Some k \<Rightarrow> (Str k, c\<lparr>bestKeys := obj_set name (Some k) (bestKeys c)\<rparr>)
           | None \<Rightarrow> (Undefined, c\<lparr>bestKeys := obj_set name None (bestKeys c)\<rparr>)))"

text \<open>
  \<open>this.factory[name]\<close>, if truthy: the item registered under the name, or else the member
  of \<open>Object.prototype\<close> of that name, read as an item through its properties \<open>isSingleton\<close>
  and \<open>instance\<close> (\<open>get\<close> does not read the \<open>name\<close> of an item).
\<close>

definition factory_item :: "host \<Rightarrow> heap \<Rightarrow> (string \<times> item) list \<Rightarrow> string \<Rightarrow> item option" where
  "factory_item E h fac name =
     (case plain_lookup fac name of
        Own it \<Rightarrow> Some it
      | Inherited b \<Rightarrow>
          Some \<lparr>it_name = name, isSingleton = truthy (get_prop E h b ''isSingleton''),
                it_instance = get_prop E h b ''instance''\<rparr>
      | Absent \<Rightarrow> None)"

text \<open>The second half of \<open>get\<close>, once the factory item is found.\<close>

definition get_item :: "host \<Rightarrow> item \<Rightarrow> jsval \<Rightarrow> heap \<Rightarrow> (error + jsval) \<times> heap" where
  "get_item E it settings h =
     (if isSingleton it then
        (if truthy (it_instance it) \<and> truthy (get_prop E h (it_instance it) ''applySettings'') then
           (case invoke E (get_prop E h (it_instance it) ''applySettings'') (it_instance it)
                   [AVal (get_prop E h (it_instance it) ''settings''), AVal settings] h of
              (Inl e, h') \<Rightarrow> (Inl e, h')
            | (Inr r, h') \<Rightarrow> (Inr (it_instance it), h'))
         else (Inr (it_instance it), h))
      else construct E (it_instance it) [AVal settings, AContainer] h)"

text \<open>
  \<open>get\<close>.  A key that is not truthy is passed over; a truthy key is made a property key
  (a string) to index the factory.
\<close>

fun get :: "host \<Rightarrow> container \<Rightarrow> string \<Rightarrow> jsval \<Rightarrow> heap \<Rightarrow> (error + jsval) \<times> container \<times> heap" where
  "get E (Container c par) name settings h =
     (case factory_item E h (factory c) name of
        Some it \<Rightarrow> (case get_item E it settings h of (r, h') \<Rightarrow> (r, Container c par, h'))
      | None \<Rightarrow>
          (case par of
             Some p \<Rightarrow> (case get E p name settings h of (r, p', h') \<Rightarrow> (r, Container c (Some p'), h'))
           | None \<Rightarrow>
               (case getBestKey E c name of
                  (key, c') \<Rightarrow>
                    if truthy key then
                      (case to_string key of
                         Inl e \<Rightarrow> (Inl e, Container c' None, h)
                       | Inr k \<Rightarrow>
                           (case factory_item E h (factory c') k of
                              None \<Rightarrow> (Inr Undefined, Container c' None, h)
                            | Some it \<Rightarrow>
                                (case get_item E it settings h of
                                   (r, h') \<Rightarrow> (r, Container c' None, h'))))
                    else (Inr Undefined, Container c' None, h))))"

subsection \<open>Pipelines and configurations\<close>

fun getCompiler :: "container \<Rightarrow> string \<Rightarrow> compiler" where
  "getCompiler (Container c par) name =
     (case map_of (compilers c) name of
        Some k \<Rightarrow> k
      | None \<Rightarrow> (case par of Some p \<Rightarrow> getCompiler p name | None \<Rightarrow> DefaultCompiler))"

text \<open>The inner loop of \<open>buildPipeline\<close>, over the previous version's lines.\<close>

fun super_lines :: "string list \<Rightarrow> string list" where
  "super_lines [] = []"
| "super_lines (p # ps) =
     (if \<not> startsWith (trim p) ''->'' then p # super_lines ps else super_lines ps)"

text \<open>Its outer loop, over the source lines.\<close>

fun expand_lines :: "string list \<Rightarrow> string list \<Rightarrow> string list" where
  "expand_lines [] prevPipeline = []"
| "expand_lines (line # rest) prevPipeline =
     (if trim line = ''$super'' then super_lines prevPipeline @ expand_lines rest prevPipeline
      else line # expand_lines rest prevPipeline)"

definition compilerName :: "string list \<Rightarrow> string" where
  "compilerName pl =
     (if pl = [] \<or> \<not> startsWith (hd pl) ''// compiler='' then ''default'' else drop 12 (hd pl))"

fun compiler_compile :: "compiler \<Rightarrow> string list \<Rightarrow> token list list" where
  "compiler_compile DefaultCompiler pl = compile pl"

definition buildPipeline :: "container \<Rightarrow> string list \<Rightarrow> string list \<Rightarrow> pipeline" where
  "buildPipeline c srcPipeline prevPipeline =
     (let pl = expand_lines srcPipeline prevPipeline;
          k = getCompiler c (compilerName pl)
      in \<lparr>pl_pipeline = pl, pl_compiler = k, pl_compiled = compiler_compile k pl\<rparr>)"

text \<open>
  \<open>getPipeline\<close>: the tag itself, then the cache, then the first key in insertion order that
  matches the tag as a wildcard; hit and miss are both cached.  Pipelines, configurations and
  compilers are looked up by their own keys: a tag or a compiler name that is a member of
  \<open>Object.prototype\<close> is not in the domain of these functions.
\<close>

definition getPipeline :: "host \<Rightarrow> cfields \<Rightarrow> string \<Rightarrow> pipeline option \<times> cfields" where
  "getPipeline E c tag =
     (case map_of (pipelines c) tag of
        Some p \<Rightarrow> (Some p, c)
      | None \<Rightarrow>
          (case map_of (cachePipelines c) tag of
             Some r \<Rightarrow> (r, c)
           | None \<Rightarrow>
               (case first_match (compareWildcards E tag) (map fst (pipelines c)) of
                  Some k \<Rightarrow>
                    (map_of (pipelines c) k,
                     c\<lparr>cachePipelines := obj_set tag (map_of (pipelines c) k) (cachePipelines c)\<rparr>)
                | None \<Rightarrow> (None, c\<lparr>cachePipelines := obj_set tag None (cachePipelines c)\<rparr>))))"

fun registerPipeline :: "host \<Rightarrow> container \<Rightarrow> string \<Rightarrow> string list \<Rightarrow> bool \<Rightarrow> container" where
  "registerPipeline E (Container c par) tag pl overwrite =
     (if overwrite \<or> map_of (pipelines c) tag = None then
        (case getPipeline E (c\<lparr>cachePipelines := []\<rparr>) tag of
           (prev, c1) \<Rightarrow>
             Container
               (c1\<lparr>pipelines :=
                     obj_set tag
                       (buildPipeline (Container c1 par) pl
                          (case prev of Some p \<Rightarrow> pl_pipeline p | None \<Rightarrow> []))
                       (pipelines c1)\<rparr>)
               par)
      else Container c par)"

fun registerConfiguration :: "container \<Rightarrow> string \<Rightarrow> jsval \<Rightarrow> bool \<Rightarrow> container" where
  "registerConfiguration (Container c par) tag configuration overwrite =
     (if overwrite \<or> \<not> truthy (case map_of (configurations c) tag of Some v \<Rightarrow> v | None \<Rightarrow> Undefined)
      then Container (c\<lparr>configurations := obj_set tag configuration (configurations c)\<rparr>) par
      else Container c par)"

subsection \<open>toJSON and fromJSON\<close>

text \<open>\<open>{...v}\<close>: a new plain object with the own properties of an object.\<close>

fun spread :: "heap \<Rightarrow> jsval \<Rightarrow> (error + jsval) \<times> heap" where
  "spread h (Ref a) =
     (if a < length h then (case alloc h ''Object'' (props (h ! a)) of (r, h') \<Rightarrow> (Inr r, h'))
      else (Inl Unmodelled, h))"
| "spread h (Str s) = (Inl Unmodelled, h)"
| "spread h (Fn f) = (Inl Unmodelled, h)"
| "spread h (BoundFn f t) = (Inl Unmodelled, h)"
| "spread h (BuiltinFn n) = (Inl Unmodelled, h)"
| "spread h (BoundBuiltin n t) = (Inl Unmodelled, h)"
| "spread h (Prototype c) = (Inl Unmodelled, h)"
| "spread h v = (case alloc h ''Object'' [] of (r, h') \<Rightarrow> (Inr r, h'))"

text \<open>The property writes of \<open>Object.assign(target, source)\<close>, in the order of the source.\<close>

fun assign_props :: "heap \<Rightarrow> jsval \<Rightarrow> (string \<times> jsval) list \<Rightarrow> error + heap" where
  "assign_props h target [] = Inr h"
| "assign_props h target (p # ps) =
     (case write_prop h target (fst p) (snd p) of
        Inl e \<Rightarrow> Inl e
      | Inr h' \<Rightarrow> assign_props h' target ps)"

fun object_assign :: "heap \<Rightarrow> jsval \<Rightarrow> jsval \<Rightarrow> error + heap" where
  "object_assign h target (Ref b) =
     (if b < length h then assign_props h target (props (h ! b)) else Inl Unmodelled)"
| "object_assign h target (Str s) = Inl Unmodelled"
| "object_assign h target (Fn f) = Inl Unmodelled"
| "object_assign h target (BoundFn f t) = Inl Unmodelled"
| "object_assign h target (BuiltinFn n) = Inl Unmodelled"
| "object_assign h target (BoundBuiltin n t) = Inl Unmodelled"
| "object_assign h target (Prototype c) = Inl Unmodelled"
| "object_assign h target v = Inr h"

text \<open>\<open>instance.constructor.name\<close>.\<close>

definition constructor_name :: "host \<Rightarrow> heap \<Rightarrow> jsval \<Rightarrow> error + jsval" where
  "constructor_name E h inst = read_prop E h (get_prop E h inst ''constructor'') ''name''"

text \<open>
  \<open>toJSON\<close>: the result of the instance's \<open>toJSON\<close>, own or inherited, or else a copy of its
  own properties; then \<open>instance.constructor.name\<close> is stored in it as \<open>className\<close>.
\<close>

definition toJSON :: "host \<Rightarrow> heap \<Rightarrow> jsval \<Rightarrow> (error + jsval) \<times> heap" where
  "toJSON E h inst =
     (if is_nullish inst then (Inl TypeError, h)
      else
        (case (if truthy (get_prop E h inst ''toJSON'')
               then invoke E (get_prop E h inst ''toJSON'') inst [] h
               else spread h inst) of
           (Inl e, h1) \<Rightarrow> (Inl e, h1)
         | (Inr result, h1) \<Rightarrow>
             (case constructor_name E h1 inst of
                Inl e \<Rightarrow> (Inl e, h1)
              | Inr cn \<Rightarrow>
                  (case write_prop h1 result ''className'' cn of
                     Inl e \<Rightarrow> (Inl e, h1)
                   | Inr h2 \<Rightarrow> (Inr result, h2)))))"

text \<open>
  The instance that \<open>fromJSON\<close> makes before it deletes \<open>className\<close>: of the class found under
  \<open>obj.className\<close>, filled by its own \<open>fromJSON\<close> or by \<open>Object.assign\<close>; a copy of \<open>obj\<close>
  when no class is found.
\<close>

definition rehydrate :: "host \<Rightarrow> container \<Rightarrow> jsval \<Rightarrow> jsval \<Rightarrow> string \<Rightarrow> heap \<Rightarrow> (error + jsval) \<times> heap" where
  "rehydrate E c obj settings key h =
     (let Clazz = plain_get (classes (own c)) key
      in if truthy Clazz then
           (case construct E Clazz [AVal settings] h of
              (Inl e, h1) \<Rightarrow> (Inl e, h1)
            | (Inr inst, h1) \<Rightarrow>
                if is_nullish inst then (Inl TypeError, h1)
                else if truthy (get_prop E h1 inst ''fromJSON'') then
                  (case invoke E (get_prop E h1 inst ''fromJSON'') inst [AVal obj] h1 of
                     (Inl e, h2) \<Rightarrow> (Inl e, h2)
                   | (Inr r, h2) \<Rightarrow> (Inr inst, h2))
                else
                  (case object_assign h1 inst obj of
                     Inl e \<Rightarrow> (Inl e, h1)
                   | Inr h2 \<Rightarrow> (Inr inst, h2)))
         else spread h obj)"

definition fromJSON :: "host \<Rightarrow> container \<Rightarrow> jsval \<Rightarrow> jsval \<Rightarrow> heap \<Rightarrow> (error + jsval) \<times> heap" where
  "fromJSON E c obj settings h =
     (case read_prop E h obj ''className'' of
        Inl e \<Rightarrow> (Inl e, h)
      | Inr cn \<Rightarrow>
          (case to_string cn of
             Inl e \<Rightarrow> (Inl e, h)
           | Inr key \<Rightarrow>
               (case rehydrate E c obj settings key h of
                  (Inl e, h3) \<Rightarrow> (Inl e, h3)
                | (Inr inst, h3) \<Rightarrow>
                    (case delete_prop h3 inst ''className'' of
                       Inl e \<Rightarrow> (Inl e, h3)
                     | Inr h4 \<Rightarrow> (Inr inst, h4)))))"

section \<open>The path resolver\<close>

text \<open>The state that a pipeline run threads through: the container and the object store.\<close>

record world =
  w_cont :: container
  w_heap :: heap

definition buildLiteral :: "rtype \<Rightarrow> string \<Rightarrow> jsval \<Rightarrow> jsval \<Rightarrow> resolved" where
  "buildLiteral subtype step v context =
     \<lparr>r_type = subtype, r_src = step, r_value = v, r_context = context\<rparr>"

text \<open>
  \<open>token.replace(/^q(.+(?=q$))q$/, '$1')\<close> for a quote character \<open>q\<close>: the outer quotes go when
  something stands between them and it holds no line terminator (which \<open>.\<close> does not match).
\<close>

definition is_line_terminator :: "char \<Rightarrow> bool" where
  "is_line_terminator c = (c = CHR 0x0A \<or> c = CHR 0x0D)"

definition strip_quotes :: "char \<Rightarrow> string \<Rightarrow> string" where
  "strip_quotes q t =
     (if 3 \<le> length t \<and> hd t = q \<and> last t = q
         \<and> list_all (\<lambda>c. \<not> is_line_terminator c) (butlast (tl t))
      then butlast (tl t) else t)"

text \<open>\<open>f.bind(t)\<close>; binding a bound function again keeps the first receiver.\<close>

fun bind_fn :: "jsval \<Rightarrow> jsval \<Rightarrow> jsval" where
  "bind_fn (Fn f) t = BoundFn f t"
| "bind_fn (BuiltinFn n) t = BoundBuiltin n t"
| "bind_fn v t = v"

text \<open>
  The loop of \<open>resolvePathWithType\<close> over \<open>tokens[1..]\<close>.  \<open>ts \<noteq> []\<close> is
  \<open>i < tokens.length - 1\<close>.
\<close>

fun walk :: "host \<Rightarrow> heap \<Rightarrow> string \<Rightarrow> jsval \<Rightarrow> string list \<Rightarrow> error + jsval" where
  "walk E h step currentObject [] = Inr currentObject"
| "walk E h step currentObject (currentToken # ts) =
     (if (\<not> truthy currentObject \<or> \<not> truthy (get_prop E h currentObject currentToken)) \<and> ts \<noteq> []
      then Inl (PathNotFound step)
      else (case read_prop E h currentObject currentToken of
              Inl e \<Rightarrow> Inl e
            | Inr v \<Rightarrow> walk E h step (if is_function v then bind_fn v currentObject else v) ts))"

text \<open>The head of a path: the first piece, trimmed; an empty head is \<open>this\<close> or \<open>context\<close>.\<close>

definition path_head :: "string \<Rightarrow> string" where
  "path_head step =
     (let token = trim (hd (split_chr CHR ''.'' step))
      in if token = [] then (if startsWith step ''.'' then ''this'' else ''context'') else token)"

text \<open>The object a non-literal head selects.  \<open>this.get(token)\<close> may change the caches.\<close>

definition path_root :: "host \<Rightarrow> world \<Rightarrow> string \<Rightarrow> jsval \<Rightarrow> jsval \<Rightarrow> jsval \<Rightarrow> (error + jsval) \<times> world" where
  "path_root E w token context input srcObject =
     (if token = ''input'' \<or> token = ''output'' then (Inr input, w)
      else if token \<noteq> [] \<and> token \<noteq> ''context'' \<and> token \<noteq> ''this'' then
        (case get E (w_cont w) token Undefined (w_heap w) of
           (Inl e, c', h') \<Rightarrow> (Inl e, \<lparr>w_cont = c', w_heap = h'\<rparr>)
         | (Inr v, c', h') \<Rightarrow>
             if truthy v then (Inr v, \<lparr>w_cont = c', w_heap = h'\<rparr>)
             else (read_prop E h' context token, \<lparr>w_cont = c', w_heap = h'\<rparr>))
      else if token = ''this'' then (Inr srcObject, w)
      else (Inr context, w))"

definition resolvePathWithType :: "host \<Rightarrow> world \<Rightarrow> string \<Rightarrow> jsval \<Rightarrow> jsval \<Rightarrow> jsval \<Rightarrow> (error + resolved) \<times> world" where
  "resolvePathWithType E w step context input srcObject =
     (let tokens = split_chr CHR ''.'' step;
          token = path_head step
      in if isnum token then
           (Inr (buildLiteral RLiteralNumber step (Num (int (digits_value token))) context), w)
         else if startsWith token [dquote] then
           (Inr (buildLiteral RLiteralString step (Str (strip_quotes dquote token)) context), w)
         else if startsWith token [squote] then
           (Inr (buildLiteral RLiteralString step (Str (strip_quotes squote token)) context), w)
         else if token = ''true'' then
           (Inr (buildLiteral RLiteralBoolean step (Bool True) context), w)
         else if token = ''false'' then
           (Inr (buildLiteral RLiteralBoolean step (Bool False) context), w)
         else
           (case path_root E w token context input srcObject of
              (Inl e, w') \<Rightarrow> (Inl e, w')
            | (Inr root, w') \<Rightarrow>
                (case walk E (w_heap w') step root (tl tokens) of
                   Inl e \<Rightarrow> (Inl e, w')
                 | Inr v \<Rightarrow>
                     (Inr \<lparr>r_type = (if is_function v then RFunction else RReference),
                           r_src = step, r_value = v, r_context = context\<rparr>, w'))))"

text \<open>
  The interpreter hands over \<open>undefined\<close> for an operand that is missing or has no \<open>value\<close>;
  a path is therefore a \<^typ>\<open>string option\<close>, and \<open>step.split\<close> on \<open>undefined\<close> is a
  \<open>TypeError\<close>.
\<close>

definition resolvePath :: "host \<Rightarrow> world \<Rightarrow> string option \<Rightarrow> jsval \<Rightarrow> jsval \<Rightarrow> jsval \<Rightarrow> (error + jsval) \<times> world" where
  "resolvePath E w step context input srcObject =
     (case step of
        None \<Rightarrow> (Inl TypeError, w)
      | Some s \<Rightarrow>
          (case resolvePathWithType E w s context input srcObject of
             (Inl e, w') \<Rightarrow> (Inl e, w')
           | (Inr r, w') \<Rightarrow> (Inr (r_value r), w')))"

text \<open>\<open>tokens.slice(0, -1).join('.')\<close> and \<open>tokens[tokens.length - 1]\<close> of a split path.\<close>

definition parent_path :: "string list \<Rightarrow> string" where
  "parent_path tokens = join_chr CHR ''.'' (butlast tokens)"

text \<open>
  The setters resolve the value first, then the parent of the path, then assign on the
  parent.  Each returns the error it raised, if any, and the new state.
\<close>

definition assign_leaf ::
  "host \<Rightarrow> world \<Rightarrow> string list \<Rightarrow> jsval \<Rightarrow> jsval \<Rightarrow> jsval \<Rightarrow> (jsval \<Rightarrow> error + jsval) \<Rightarrow> error option \<times> world" where
  "assign_leaf E w tokens context input srcObject f =
     (case resolvePath E w (Some (parent_path tokens)) context input srcObject of
        (Inl e, w') \<Rightarrow> (Some e, w')
      | (Inr currentObject, w') \<Rightarrow>
          (case read_prop E (w_heap w') currentObject (last tokens) of
             Inl e \<Rightarrow> (Some e, w')
           | Inr old \<Rightarrow>
               (case f old of
                  Inl e \<Rightarrow> (Some e, w')
                | Inr new \<Rightarrow>
                    (case write_prop (w_heap w') currentObject (last tokens) new of
                       Inl e \<Rightarrow> (Some e, w')
                     | Inr h' \<Rightarrow> (None, w'\<lparr>w_heap := h'\<rparr>)))))"

definition setValue :: "host \<Rightarrow> world \<Rightarrow> string option \<Rightarrow> string option \<Rightarrow> jsval \<Rightarrow> jsval \<Rightarrow> jsval \<Rightarrow> error option \<times> world" where
  "setValue E w path valuePath context input srcObject =
     (case resolvePath E w valuePath context input srcObject of
        (Inl e, w1) \<Rightarrow> (Some e, w1)
      | (Inr v, w1) \<Rightarrow>
          (case path of
             None \<Rightarrow> (Some TypeError, w1)
           | Some p \<Rightarrow>
               (let tokens = split_chr CHR ''.'' p in
                case resolvePath E w1 (Some (parent_path tokens)) context input srcObject of
                  (Inl e, w2) \<Rightarrow> (Some e, w2)
                | (Inr currentObject, w2) \<Rightarrow>
                    (case write_prop (w_heap w2) currentObject (last tokens) v of
                       Inl e \<Rightarrow> (Some e, w2)
                     | Inr h' \<Rightarrow> (None, w2\<lparr>w_heap := h'\<rparr>)))))"

definition incValue :: "host \<Rightarrow> world \<Rightarrow> string option \<Rightarrow> string option \<Rightarrow> jsval \<Rightarrow> jsval \<Rightarrow> jsval \<Rightarrow> error option \<times> world" where
  "incValue E w path valuePath context input srcObject =
     (case resolvePath E w valuePath context input srcObject of
        (Inl e, w1) \<Rightarrow> (Some e, w1)
      | (Inr v, w1) \<Rightarrow>
          (case path of
             None \<Rightarrow> (Some TypeError, w1)
           | Some p \<Rightarrow>
               (let tokens = split_chr CHR ''.'' p @ (if startsWith p ''.'' then [''this''] else [])
                in assign_leaf E w1 tokens context input srcObject (\<lambda>old. js_add old v))))"

definition decValue :: "host \<Rightarrow> world \<Rightarrow> string option \<Rightarrow> string option \<Rightarrow> jsval \<Rightarrow> jsval \<Rightarrow> jsval \<Rightarrow> error option \<times> world" where
  "decValue E w path valuePath context input srcObject =
     (case resolvePath E w valuePath context input srcObject of
        (Inl e, w1) \<Rightarrow> (Some e, w1)
      | (Inr v, w1) \<Rightarrow>
          (case path of
             None \<Rightarrow> (Some TypeError, w1)
           | Some p \<Rightarrow>
               assign_leaf E w1 (split_chr CHR ''.'' p) context input srcObject (\<lambda>old. js_sub old v)))"

text \<open>
  The six comparisons differ in the operator only: they resolve both paths and store the
  result in \<open>context.floating\<close>.
\<close>

definition compareValue ::
  "(jsval \<Rightarrow> jsval \<Rightarrow> error + bool) \<Rightarrow> host \<Rightarrow> world \<Rightarrow> string option \<Rightarrow> string option \<Rightarrow> jsval \<Rightarrow> jsval \<Rightarrow> jsval \<Rightarrow> error option \<times> world" where
  "compareValue cmp E w pathA pathB context input srcObject =
     (case resolvePath E w pathA context input srcObject of
        (Inl e, w1) \<Rightarrow> (Some e, w1)
      | (Inr valueA, w1) \<Rightarrow>
          (case resolvePath E w1 pathB context input srcObject of
             (Inl e, w2) \<Rightarrow> (Some e, w2)
           | (Inr valueB, w2) \<Rightarrow>
               (case cmp valueA valueB of
                  Inl e \<Rightarrow> (Some e, w2)
                | Inr b \<Rightarrow>
                    (case write_prop (w_heap w2) context ''floating'' (Bool b) of
                       Inl e \<Rightarrow> (Some e, w2)
                     | Inr h' \<Rightarrow> (None, w2\<lparr>w_heap := h'\<rparr>)))))"

definition strict_neq :: "jsval \<Rightarrow> jsval \<Rightarrow> error + bool" where
  "strict_neq a b = (case strict_eq a b of Inl e \<Rightarrow> Inl e | Inr r \<Rightarrow> Inr (\<not> r))"

definition eqValue where "eqValue = compareValue strict_eq"
definition neqValue where "neqValue = compareValue strict_neq"
definition gtValue where "gtValue = compareValue (\<lambda>a b. js_lt b a)"
definition geValue where "geValue = compareValue (\<lambda>a b. js_le b a)"
definition ltValue where "ltValue = compareValue js_lt"
definition leValue where "leValue = compareValue js_le"

definition deleteValue :: "host \<Rightarrow> world \<Rightarrow> string option \<Rightarrow> jsval \<Rightarrow> jsval \<Rightarrow> jsval \<Rightarrow> error option \<times> world" where
  "deleteValue E w path context input srcObject =
     (case path of
        None \<Rightarrow> (Some TypeError, w)
      | Some p \<Rightarrow>
          (let tokens = split_chr CHR ''.'' p in
           case resolvePath E w (Some (parent_path tokens)) context input srcObject of
             (Inl e, w1) \<Rightarrow> (Some e, w1)
           | (Inr currentObject, w1) \<Rightarrow>
               (case delete_prop (w_heap w1) currentObject (last tokens) of
                  Inl e \<Rightarrow> (Some e, w1)
                | Inr h' \<Rightarrow> (None, w1\<lparr>w_heap := h'\<rparr>))))"

text \<open>\<open>getValue\<close>: a missing or empty path is \<open>floating\<close>.\<close>

definition getValue :: "host \<Rightarrow> world \<Rightarrow> string option \<Rightarrow> jsval \<Rightarrow> jsval \<Rightarrow> jsval \<Rightarrow> (error + jsval) \<times> world" where
  "getValue E w srcPath context input srcObject =
     (let path = (case srcPath of None \<Rightarrow> ''floating'' | Some p \<Rightarrow> if p = [] then ''floating'' else p);
          tokens = split_chr CHR ''.'' path
      in case resolvePath E w (Some (parent_path tokens)) context input srcObject of
           (Inl e, w1) \<Rightarrow> (Inl e, w1)
         | (Inr currentObject, w1) \<Rightarrow> (read_prop E (w_heap w1) currentObject (last tokens), w1))"

section \<open>The default compiler: execution\<close>

text \<open>\<open>step[i]\<close>, and the operand forms \<open>step[i] ? step[i].value : undefined\<close> and
  \<open>step[i] ? step[i].value : d\<close>.\<close>

definition step_at :: "token list \<Rightarrow> nat \<Rightarrow> token option" where
  "step_at step i = (if i < length step then Some (step ! i) else None)"

definition opt_value :: "token list \<Rightarrow> nat \<Rightarrow> string option" where
  "opt_value step i = (case step_at step i of None \<Rightarrow> None | Some t \<Rightarrow> token_value t)"

definition opt_value_or :: "token list \<Rightarrow> nat \<Rightarrow> string \<Rightarrow> string option" where
  "opt_value_or step i d = (case step_at step i of None \<Rightarrow> Some d | Some t \<Rightarrow> token_value t)"

text \<open>A property key made from a token's value: \<open>undefined\<close> becomes the key \<open>undefined\<close>.\<close>

definition value_key :: "string option \<Rightarrow> string" where
  "value_key v = (case v of None \<Rightarrow> ''undefined'' | Some k \<Rightarrow> k)"

text \<open>
  \<open>findLabels\<close>, from index \<open>i\<close> on: it reads \<open>current[0].type\<close> and, for a label,
  \<open>current[1].value\<close>, and fails where the token is missing.
\<close>

fun findLabels :: "heap \<Rightarrow> token list list \<Rightarrow> jsval \<Rightarrow> nat \<Rightarrow> error option \<times> heap" where
  "findLabels h [] labels i = (None, h)"
| "findLabels h (current # rest) labels i =
     (case current of
        [] \<Rightarrow> (Some TypeError, h)
      | t0 # ts \<Rightarrow>
          if t0 = Op Label then
            (case ts of
               [] \<Rightarrow> (Some TypeError, h)
             | t1 # _ \<Rightarrow>
                 (case write_prop h labels (value_key (token_value t1)) (Num (int i)) of
                    Inl e \<Rightarrow> (Some e, h)
                  | Inr h' \<Rightarrow> findLabels h' rest labels (Suc i)))
          else findLabels h rest labels (Suc i))"

text \<open>
  \<open>doGoto\<close> stores \<open>context.labels[label]\<close> in the cursor, whatever it is: the index that
  \<open>findLabels\<close> recorded, a member of \<open>Object.prototype\<close>, or \<open>undefined\<close>.
\<close>

definition doGoto :: "host \<Rightarrow> heap \<Rightarrow> string option \<Rightarrow> jsval \<Rightarrow> error + heap" where
  "doGoto E h label context =
     (case read_prop E h context ''labels'' of
        Inl e \<Rightarrow> Inl e
      | Inr labels \<Rightarrow>
          (case read_prop E h labels (value_key label) of
             Inl e \<Rightarrow> Inl e
           | Inr index \<Rightarrow> write_prop h context ''cursor'' index))"

text \<open>
  What \<open>runPipeline\<close> is given: a tag, a built pipeline, or bare lines (which have no
  \<open>compiler\<close>).
\<close>

datatype pipeline_src = ByTag string | Built pipeline | AdHoc "string list"

text \<open>
  The result of a run: \<open>None\<close> when the fuel is used up, else the value returned or the
  error thrown, and the state.
\<close>

type_synonym outcome = "((error + jsval) \<times> world) option"

type_synonym runner = "world \<Rightarrow> pipeline_src \<Rightarrow> jsval \<Rightarrow> jsval \<Rightarrow> nat \<Rightarrow> outcome"

definition getPipelineW :: "host \<Rightarrow> world \<Rightarrow> string \<Rightarrow> pipeline option \<times> world" where
  "getPipelineW E w tag =
     (case getPipeline E (own (w_cont w)) tag of
        (r, c') \<Rightarrow> (r, w\<lparr>w_cont := Container c' (parent (w_cont w))\<rparr>))"

definition executeCall :: "host \<Rightarrow> runner \<Rightarrow> token \<Rightarrow> jsval \<Rightarrow> jsval \<Rightarrow> jsval \<Rightarrow> nat \<Rightarrow> world \<Rightarrow> outcome" where
  "executeCall E run firstToken context input srcObject depth w =
     (case getPipelineW E w (value_key (token_value firstToken)) of
        (None, w1) \<Rightarrow> Some (Inl PipelineNotFound, w1)
      | (Some p, w1) \<Rightarrow> run w1 (Built p) input srcObject (depth + 1))"

text \<open>The loop of \<open>executeReference\<close> that resolves the arguments \<open>step[1..]\<close>.\<close>

fun resolve_args :: "host \<Rightarrow> world \<Rightarrow> token list \<Rightarrow> jsval \<Rightarrow> jsval \<Rightarrow> jsval \<Rightarrow> (error + resolved list) \<times> world" where
  "resolve_args E w [] context input srcObject = (Inr [], w)"
| "resolve_args E w (t # ts) context input srcObject =
     (case token_value t of
        None \<Rightarrow> (Inl TypeError, w)
      | Some s \<Rightarrow>
          (case resolvePathWithType E w s context input srcObject of
             (Inl e, w1) \<Rightarrow> (Inl e, w1)
           | (Inr r, w1) \<Rightarrow>
               (case resolve_args E w1 ts context input srcObject of
                  (Inl e, w2) \<Rightarrow> (Inl e, w2)
                | (Inr rs, w2) \<Rightarrow> (Inr (r # rs), w2))))"

definition executeReference ::
  "host \<Rightarrow> world \<Rightarrow> token list \<Rightarrow> token \<Rightarrow> jsval \<Rightarrow> jsval \<Rightarrow> jsval \<Rightarrow> (error + jsval) \<times> world" where
  "executeReference E w step firstToken context input srcObject =
     (case resolvePath E w (token_value firstToken) context input srcObject of
        (Inl e, w1) \<Rightarrow> (Inl e, w1)
      | (Inr currentObject, w1) \<Rightarrow>
          (case resolve_args E w1 (tl step) context input srcObject of
             (Inl e, w2) \<Rightarrow> (Inl e, w2)
           | (Inr args, w2) \<Rightarrow>
               if \<not> truthy currentObject then (Inl MethodNotFound, w2)
               else
                 (let r = get_prop E (w_heap w2) currentObject ''run'';
                      method = (if truthy r then r else currentObject)
                  in if is_function method then
                       (case invoke E
                               (if is_function currentObject then method
                                else bind_fn method currentObject)
                               Undefined (AVal input # map ARes args) (w_heap w2) of
                          (res, h') \<Rightarrow> (res, w2\<lparr>w_heap := h'\<rparr>))
                     else (Inr method, w2))))"

text \<open>The end of \<open>executeAction\<close> for the cases that \<open>break\<close>: \<open>return input\<close>.\<close>

fun return_input :: "jsval \<Rightarrow> error option \<times> world \<Rightarrow> outcome" where
  "return_input input (None, w) = Some (Inr input, w)"
| "return_input input (Some e, w) = Some (Inl e, w)"

definition goto_step :: "host \<Rightarrow> token list \<Rightarrow> jsval \<Rightarrow> jsval \<Rightarrow> world \<Rightarrow> outcome" where
  "goto_step E step context input w =
     (case step_at step 1 of
        None \<Rightarrow> Some (Inl TypeError, w)
      | Some t1 \<Rightarrow>
          (case doGoto E (w_heap w) (token_value t1) context of
             Inl e \<Rightarrow> Some (Inl e, w)
           | Inr h' \<Rightarrow> Some (Inr input, w\<lparr>w_heap := h'\<rparr>)))"

text \<open>The \<open>switch\<close> of \<open>executeAction\<close> on the type of the first token.\<close>

fun executeSwitch ::
  "host \<Rightarrow> runner \<Rightarrow> token \<Rightarrow> token list \<Rightarrow> jsval \<Rightarrow> jsval \<Rightarrow> jsval \<Rightarrow> nat \<Rightarrow> world \<Rightarrow> outcome" where
  "executeSwitch E run (Op Set) step context input srcObject depth w =
     (case step_at step 1 of
        None \<Rightarrow> Some (Inl TypeError, w)
      | Some t1 \<Rightarrow>
          return_input input
            (setValue E w (token_value t1) (opt_value step 2) context input srcObject))"
| "executeSwitch E run (Op Delete) step context input srcObject depth w =
     (case step_at step 1 of
        None \<Rightarrow> Some (Inl TypeError, w)
      | Some t1 \<Rightarrow>
          return_input input (deleteValue E w (token_value t1) context input srcObject))"
| "executeSwitch E run (Op Get) step context input srcObject depth w =
     Some (getValue E w (opt_value step 1) context input srcObject)"
| "executeSwitch E run (Op Inc) step context input srcObject depth w =
     return_input input
       (incValue E w (opt_value step 1) (opt_value_or step 2 ''1'') context input srcObject)"
| "executeSwitch E run (Op Dec) step context input srcObject depth w =
     return_input input
       (decValue E w (opt_value step 1) (opt_value_or step 2 ''1'') context input srcObject)"
| "executeSwitch E run (Op Eq) step context input srcObject depth w =
     return_input input
       (eqValue E w (opt_value step 1) (opt_value step 2) context input srcObject)"
| "executeSwitch E run (Op Neq) step context input srcObject depth w =
     return_input input
       (neqValue E w (opt_value step 1) (opt_value step 2) context input srcObject)"
| "executeSwitch E run (Op Gt) step context input srcObject depth w =
     return_input input
       (gtValue E w (opt_value step 1) (opt_value step 2) context input srcObject)"
| "executeSwitch E run (Op Ge) step context input srcObject depth w =
     return_input input
       (geValue E w (opt_value step 1) (opt_value step 2) context input srcObject)"
| "executeSwitch E run (Op Lt) step context input srcObject depth w =
     return_input input
       (ltValue E w (opt_value step 1) (opt_value step 2) context input srcObject)"
| "executeSwitch E run (Op Le) step context input srcObject depth w =
     return_input input
       (leValue E w (opt_value step 1) (opt_value step 2) context input srcObject)"
| "executeSwitch E run (Op Goto) step context input srcObject depth w =
     goto_step E step context input w"
| "executeSwitch E run (Op Jne) step context input srcObject depth w =
     (case read_prop E (w_heap w) context ''floating'' of
        Inl e \<Rightarrow> Some (Inl e, w)
      | Inr floating \<Rightarrow>
          if \<not> truthy floating then goto_step E step context input w
          else Some (Inr input, w))"
| "executeSwitch E run (Op Je) step context input srcObject depth w =
     (case read_prop E (w_heap w) context ''floating'' of
        Inl e \<Rightarrow> Some (Inl e, w)
      | Inr floating \<Rightarrow>
          if truthy floating then goto_step E step context input w
          else Some (Inr input, w))"
| "executeSwitch E run (Call v) step context input srcObject depth w =
     executeCall E run (Call v) context input srcObject depth w"
| "executeSwitch E run (Reference v) step context input srcObject depth w =
     Some (executeReference E w step (Reference v) context input srcObject)"
| "executeSwitch E run (Op Label) step context input srcObject depth w = Some (Inr input, w)"
| "executeSwitch E run (Comment v) step context input srcObject depth w = Some (Inr input, w)"

text \<open>The first token with its \<open>->\<close> prefix cut off.\<close>

fun unprefixed :: "token \<Rightarrow> token" where
  "unprefixed (Comment v) = Comment (drop 2 v)"
| "unprefixed (Call v) = Call (drop 2 v)"
| "unprefixed (Reference v) = Reference (drop 2 v)"
| "unprefixed (Op k) = Op k"

definition has_arrow :: "token \<Rightarrow> bool" where
  "has_arrow t = (case token_value t of None \<Rightarrow> False | Some v \<Rightarrow> v \<noteq> [] \<and> startsWith v ''->'')"

text \<open>
  \<open>executeAction\<close>.  The step is \<open>None\<close> when the cursor points outside the program; reading
  \<open>step[0]\<close> then fails, as does reading \<open>firstToken.type\<close> of an empty step.
\<close>

definition executeAction ::
  "host \<Rightarrow> runner \<Rightarrow> token list option \<Rightarrow> jsval \<Rightarrow> jsval \<Rightarrow> jsval \<Rightarrow> nat \<Rightarrow> world \<Rightarrow> outcome" where
  "executeAction E run step context input srcObject depth w =
     (case step of
        None \<Rightarrow> Some (Inl TypeError, w)
      | Some st \<Rightarrow>
          (case st of
             [] \<Rightarrow> Some (Inl TypeError, w)
           | t0 # ts \<Rightarrow>
               if has_arrow t0 then
                 (if depth > 0 then Some (Inr input, w)
                  else executeSwitch E run (unprefixed t0) st context input srcObject depth w)
               else executeSwitch E run t0 st context input srcObject depth w))"

text \<open>\<open>JSON.stringify\<close> of an array of strings, the tag of a pipeline given as bare lines.\<close>

definition hex_digit :: "nat \<Rightarrow> char" where
  "hex_digit n = (if n < 10 then char_of (48 + n) else char_of (87 + n))"

definition json_escape :: "char \<Rightarrow> string" where
  "json_escape c =
     (let n = (of_char c :: nat) in
      if n = 0x22 then [CHR 0x5C, CHR 0x22]
      else if n = 0x5C then [CHR 0x5C, CHR 0x5C]
      else if n = 8 then [CHR 0x5C, CHR ''b'']
      else if n = 9 then [CHR 0x5C, CHR ''t'']
      else if n = 10 then [CHR 0x5C, CHR ''n'']
      else if n = 12 then [CHR 0x5C, CHR ''f'']
      else if n = 13 then [CHR 0x5C, CHR ''r'']
      else if n < 32 then [CHR 0x5C, CHR ''u'', CHR ''0'', CHR ''0'', hex_digit (n div 16), hex_digit (n mod 16)]
      else [c])"

definition JSON_stringify :: "string list \<Rightarrow> string" where
  "JSON_stringify lines =
     ''['' @ join_chr CHR '','' (map (\<lambda>l. CHR 0x22 # concat (map json_escape l) @ [CHR 0x22]) lines) @ '']''"

text \<open>\<open>compiled[context.cursor]\<close>.\<close>

fun instr_at :: "token list list \<Rightarrow> jsval \<Rightarrow> token list option" where
  "instr_at compiled (Num n) =
     (if 0 \<le> n \<and> nat n < length compiled then Some (compiled ! nat n) else None)"
| "instr_at compiled v = None"

text \<open>\<open>context.cursor += 1\<close>.\<close>

definition advance :: "host \<Rightarrow> jsval \<Rightarrow> world \<Rightarrow> error option \<times> world" where
  "advance E context w =
     (case read_prop E (w_heap w) context ''cursor'' of
        Inl e \<Rightarrow> (Some e, w)
      | Inr cur \<Rightarrow>
          (case js_add cur (Num 1) of
             Inl e \<Rightarrow> (Some e, w)
           | Inr cur' \<Rightarrow>
               (case write_prop (w_heap w) context ''cursor'' cur' of
                  Inl e \<Rightarrow> (Some e, w)
                | Inr h' \<Rightarrow> (None, w\<lparr>w_heap := h'\<rparr>))))"

text \<open>The loop test \<open>context.cursor < compiled.length\<close>.\<close>

definition loop_test :: "host \<Rightarrow> world \<Rightarrow> jsval \<Rightarrow> token list list \<Rightarrow> error + bool" where
  "loop_test E w context compiled =
     (case read_prop E (w_heap w) context ''cursor'' of
        Inl e \<Rightarrow> Inl e
      | Inr cur \<Rightarrow> js_lt cur (Num (int (length compiled))))"

definition cursor_of :: "host \<Rightarrow> world \<Rightarrow> jsval \<Rightarrow> jsval" where
  "cursor_of E w context = get_prop E (w_heap w) context ''cursor''"

text \<open>
  One turn of the \<open>while\<close> loop of \<open>execute\<close>: the test, the action at the cursor, the
  increment.  The loop ends (\<open>Exit\<close>) when the test fails or something throws, and goes on
  (\<open>Next\<close>) with the new state and input; \<open>Stuck\<close> is a call that ran out of fuel.  \<open>run\<close> is
  what a call token runs.
\<close>

datatype iteration = Exit "(error + jsval) \<times> world" | Next world jsval | Stuck

definition loop_iter ::
  "host \<Rightarrow> runner \<Rightarrow> world \<Rightarrow> token list list \<Rightarrow> jsval \<Rightarrow> jsval \<Rightarrow> jsval \<Rightarrow> nat \<Rightarrow> iteration" where
  "loop_iter E run w compiled context input srcObject depth =
     (case loop_test E w context compiled of
        Inl e \<Rightarrow> Exit (Inl e, w)
      | Inr b \<Rightarrow>
          if b then
            (case executeAction E run (instr_at compiled (cursor_of E w context))
                    context input srcObject depth w of
               None \<Rightarrow> Stuck
             | Some (Inl e, w1) \<Rightarrow> Exit (Inl e, w1)
             | Some (Inr input', w1) \<Rightarrow>
                 (case advance E context w1 of
                    (Some e, w2) \<Rightarrow> Exit (Inl e, w2)
                  | (None, w2) \<Rightarrow> Next w2 input'))
          else Exit (Inr input, w))"

text \<open>
  The loop may run for ever, so it is given fuel, one unit for each turn that goes on;
  \<open>None\<close> is the loop that has not ended when the fuel is spent.
\<close>

fun exec_loop ::
  "host \<Rightarrow> runner \<Rightarrow> nat \<Rightarrow> world \<Rightarrow> token list list \<Rightarrow> jsval \<Rightarrow> jsval \<Rightarrow> jsval \<Rightarrow> nat \<Rightarrow> outcome" where
  "exec_loop E run 0 w compiled context input srcObject depth =
     (case loop_iter E run w compiled context input srcObject depth of
        Exit r \<Rightarrow> Some r
      | Next w2 input' \<Rightarrow> None
      | Stuck \<Rightarrow> None)"
| "exec_loop E run (Suc n) w compiled context input srcObject depth =
     (case loop_iter E run w compiled context input srcObject depth of
        Exit r \<Rightarrow> Some r
      | Next w2 input' \<Rightarrow> exec_loop E run n w2 compiled context input' srcObject depth
      | Stuck \<Rightarrow> None)"

text \<open>The state at the head of the loop after \<open>k\<close> turns, if the loop gets that far.\<close>

fun loop_state ::
  "host \<Rightarrow> runner \<Rightarrow> nat \<Rightarrow> world \<Rightarrow> token list list \<Rightarrow> jsval \<Rightarrow> jsval \<Rightarrow> jsval \<Rightarrow> nat \<Rightarrow> (world \<times> jsval) option" where
  "loop_state E run 0 w compiled context input srcObject depth = Some (w, input)"
| "loop_state E run (Suc k) w compiled context input srcObject depth =
     (case loop_iter E run w compiled context input srcObject depth of
        Exit r \<Rightarrow> None
      | Next w2 input' \<Rightarrow> loop_state E run k w2 compiled context input' srcObject depth
      | Stuck \<Rightarrow> None)"

text \<open>
  The start of \<open>execute\<close>: a fresh context \<open>{cursor: 0, labels: {}}\<close> and the label scan.
  The result is the error of the scan, if any, the context and the state.
\<close>

definition loop_start :: "world \<Rightarrow> token list list \<Rightarrow> error option \<times> jsval \<times> world" where
  "loop_start w compiled =
     (case alloc (w_heap w) ''Object'' [] of
        (labels, h1) \<Rightarrow>
          (case alloc h1 ''Object'' [(''cursor'', Num 0), (''labels'', labels)] of
             (context, h2) \<Rightarrow>
               (case findLabels h2 compiled labels 0 of
                  (e, h3) \<Rightarrow> (e, context, w\<lparr>w_heap := h3\<rparr>))))"

text \<open>\<open>execute\<close>: the start, then the loop.\<close>

definition execute ::
  "host \<Rightarrow> runner \<Rightarrow> nat \<Rightarrow> world \<Rightarrow> token list list \<Rightarrow> jsval \<Rightarrow> jsval \<Rightarrow> nat \<Rightarrow> outcome" where
  "execute E run fuel w compiled srcInput srcObject depth =
     (case loop_start w compiled of
        (Some e, context, w3) \<Rightarrow> Some (Inl e, w3)
      | (None, context, w3) \<Rightarrow>
          exec_loop E run fuel w3 compiled context srcInput srcObject depth)"

text \<open>
  \<open>runPipeline\<close>.  The depth check comes first and needs no fuel.  With fuel \<open>n + 1\<close> the
  loop of the pipeline may take \<open>n\<close> iterations, and each of its calls runs with fuel \<open>n\<close>.
  The compiler of a built pipeline is the default one, whose \<open>container\<close> is the running
  container.
\<close>

fun runPipeline :: "host \<Rightarrow> nat \<Rightarrow> world \<Rightarrow> pipeline_src \<Rightarrow> jsval \<Rightarrow> jsval \<Rightarrow> nat \<Rightarrow> outcome" where
  "runPipeline E 0 w srcPipeline input srcObject depth =
     (if depth > 10 then Some (Inl PipelineDepthExceeded, w) else None)"
| "runPipeline E (Suc n) w srcPipeline input srcObject depth =
     (if depth > 10 then Some (Inl PipelineDepthExceeded, w)
      else
        (case srcPipeline of
           ByTag tag \<Rightarrow>
             (case getPipelineW E w tag of
                (None, w1) \<Rightarrow> Some (Inl PipelineNotFound, w1)
              | (Some p, w1) \<Rightarrow>
                  execute E (runPipeline E n) n w1 (pl_compiled p) input srcObject depth)
         | Built p \<Rightarrow> execute E (runPipeline E n) n w (pl_compiled p) input srcObject depth
         | AdHoc lines \<Rightarrow>
             (let tag = JSON_stringify lines;
                  w1 = w\<lparr>w_cont := registerPipeline E (w_cont w) tag lines False\<rparr>
              in case getPipelineW E w1 tag of
                   (None, w2) \<Rightarrow> Some (Inl TypeError, w2)
                 | (Some built, w2) \<Rightarrow>
                     execute E (runPipeline E n) n w2 (pl_compiled built) input srcObject depth)))"

section \<open>A sample host\<close>

text \<open>
  Modelled from the spec: \<open>compareWildcards\<close> of \<open>./helper\<close>, which is not among the sources.
  In the rule, \<open>*\<close> matches any run of characters, \<open>?\<close> matches one character, and every other
  character matches itself.  It is used for examples only; the properties below hold for every
  matcher.
\<close>

fun glob :: "string \<Rightarrow> string \<Rightarrow> bool" where
  "glob [] [] = True"
| "glob [] (c # cs) = False"
| "glob (p # ps) [] = (p = CHR ''*'' \<and> glob ps [])"
| "glob (p # ps) (c # cs) =
     (if p = CHR ''*'' then glob ps (c # cs) \<or> glob (p # ps) cs
      else (p = CHR ''?'' \<or> p = c) \<and> glob ps cs)"

text \<open>
  A host with that matcher, in which every call returns \<open>undefined\<close> and every construction
  makes an empty object of a class \<open>Thing\<close>.
\<close>

definition sample_host :: host where
  "sample_host =
     \<lparr>compareWildcards = (\<lambda>text rule. glob rule text),
      call_fn = (\<lambda>f this args h. (Inr Undefined, h)),
      new_fn = (\<lambda>f args h. (Inr (Ref (length h)), h @ [\<lparr>ctor = ''Thing'', props = []\<rparr>])),
      fn_name = (\<lambda>f. ''Thing''),
      members = (\<lambda>c k. None),
      statics = (\<lambda>f k. None)\<rparr>"

section \<open>The counter pipeline\<close>

text \<open>The first scenario of the specification, and the states its run goes through.\<close>

definition counter_pipeline :: "string list" where
  "counter_pipeline =
     [''set input.count 0'', ''label loop'', ''inc input.count'', ''lt input.count 3'',
      ''je loop'', ''get input'']"

text \<open>
  The state of a run that started in \<open>w\<close> on the input object at \<open>a\<close>: the input object has
  the properties \<open>ps\<close>, and the two objects that \<open>execute\<close> made follow the store of \<open>w\<close>: the
  label table and the context, with its cursor and, in \<open>fl\<close>, its \<open>floating\<close> slot.
\<close>

definition counter_state ::
  "world \<Rightarrow> nat \<Rightarrow> (string \<times> jsval) list \<Rightarrow> int \<Rightarrow> (string \<times> jsval) list \<Rightarrow> world" where
  "counter_state w a ps cur fl =
     w\<lparr>w_heap := (w_heap w)[a := (w_heap w ! a)\<lparr>props := ps\<rparr>] @
       [\<lparr>ctor = ''Object'', props = [(''loop'', Num 1)]\<rparr>,
        \<lparr>ctor = ''Object'',
         props = [(''cursor'', Num cur), (''labels'', Ref (length (w_heap w)))] @ fl\<rparr>]\<rparr>"

text \<open>The context that \<open>execute\<close> makes in a run that starts in \<open>w\<close>.\<close>

definition run_context :: "world \<Rightarrow> jsval" where
  "run_context w = Ref (Suc (length (w_heap w)))"

text \<open>A store with one empty plain object, in a new container.\<close>

definition sample_world :: world where
  "sample_world = \<lparr>w_cont = new_Container, w_heap = [\<lparr>ctor = ''Object'', props = []\<rparr>]\<rparr>"

section \<open>Auxiliary notions and sample data\<close>

text \<open>
  The values that a walk from \<open>cur\<close> along the tokens \<open>ts\<close> finds, one for each token: the
  lookup result, bound to its owner when it is a function.  A lookup on \<open>undefined\<close> or \<open>null\<close>
  finds nothing.
\<close>

fun chain :: "host \<Rightarrow> heap \<Rightarrow> jsval \<Rightarrow> string list \<Rightarrow> jsval list" where
  "chain E h cur [] = []"
| "chain E h cur (t # ts) =
     (let v = get_prop E h cur t; v' = (if is_function v then bind_fn v cur else v)
      in v' # chain E h v' ts)"

text \<open>The heads that \<open>resolvePathWithType\<close> takes for literals.\<close>

definition literal_head :: "string \<Rightarrow> bool" where
  "literal_head token =
     (isnum token \<or> startsWith token [dquote] \<or> startsWith token [squote]
      \<or> token = ''true'' \<or> token = ''false'')"

text \<open>\<open>fromJSON(toJSON(x), settings)\<close>.\<close>

definition roundtrip :: "host \<Rightarrow> container \<Rightarrow> jsval \<Rightarrow> jsval \<Rightarrow> heap \<Rightarrow> (error + jsval) \<times> heap" where
  "roundtrip E c x settings h =
     (case toJSON E h x of
        (Inl e, h1) \<Rightarrow> (Inl e, h1)
      | (Inr j, h1) \<Rightarrow> fromJSON E c j settings h1)"

text \<open>A container with one singleton under a wildcard key.\<close>

definition token_fields :: cfields where
  "token_fields = (own new_Container)\<lparr>factory :=
      [(''token-*'', \<lparr>it_name = ''token-*'', isSingleton = True, it_instance = Str ''tok''\<rparr>)]\<rparr>"

text \<open>
  A host whose every native call counts itself in the \<open>calls\<close> property of its receiver,
  and a container with a singleton service, the object at \<open>Ref 0\<close>, that has such an
  \<open>applySettings\<close>.
\<close>

definition counting_host :: host where
  "counting_host =
     \<lparr>compareWildcards = (\<lambda>text rule. glob rule text),
      call_fn = (\<lambda>f this args h.
        (case this of
           Ref a \<Rightarrow>
             if a < length h then
               (Inr Undefined,
                h[a := (h ! a)\<lparr>props :=
                   obj_set ''calls''
                     (case map_of (props (h ! a)) ''calls'' of
                        Some (Num n) \<Rightarrow> Num (n + 1)
                      | _ \<Rightarrow> Num 1)
                     (props (h ! a))\<rparr>])
             else (Inr Undefined, h)
         | _ \<Rightarrow> (Inr Undefined, h))),
      new_fn = (\<lambda>f args h. (Inr (Ref (length h)), h @ [\<lparr>ctor = ''Thing'', props = []\<rparr>])),
      fn_name = (\<lambda>f. ''Thing''),
      members = (\<lambda>c k. None),
      statics = (\<lambda>f k. None)\<rparr>"

definition service_fields :: cfields where
  "service_fields = (own new_Container)\<lparr>factory :=
      [(''svc'', \<lparr>it_name = ''svc'', isSingleton = True, it_instance = Ref 0\<rparr>)]\<rparr>"

definition service_heap :: "int \<Rightarrow> heap" where
  "service_heap n = [\<lparr>ctor = ''Svc'', props = [(''applySettings'', Fn 0), (''calls'', Num n)]\<rparr>]"

text \<open>The cursor of a context is a number from \<open>0\<close> to the length of the program.\<close>

definition cursor_in_range :: "host \<Rightarrow> world \<Rightarrow> jsval \<Rightarrow> token list list \<Rightarrow> bool" where
  "cursor_in_range E w context compiled =
     (case cursor_of E w context of
        Num n \<Rightarrow> 0 \<le> n \<and> n \<le> int (length compiled)
      | _ \<Rightarrow> False)"

text \<open>The own properties of the object that \<open>context.labels\<close> refers to.\<close>

definition label_table :: "host \<Rightarrow> world \<Rightarrow> jsval \<Rightarrow> (string \<times> jsval) list" where
  "label_table E w context =
     (case get_prop E (w_heap w) context ''labels'' of
        Ref l \<Rightarrow> if l < length (w_heap w) then props (w_heap w ! l) else []
      | _ \<Rightarrow> [])"

text \<open>
  A turn of the loop that starts in \<open>w\<close> respects the labels when its instruction, if it
  returns, leaves \<open>context.labels\<close> and the label table as they were, and leaves the cursor
  where it was or sets it to a value that the table holds: it is then a jump to a recorded
  label, or an instruction that does not touch the cursor.
\<close>

definition keeps_labels :: "host \<Rightarrow> world \<Rightarrow> world \<Rightarrow> jsval \<Rightarrow> bool" where
  "keeps_labels E w w1 context =
     (get_prop E (w_heap w1) context ''labels'' = get_prop E (w_heap w) context ''labels'' \<and>
      label_table E w1 context = label_table E w context)"

definition moves_by_label :: "host \<Rightarrow> world \<Rightarrow> world \<Rightarrow> jsval \<Rightarrow> bool" where
  "moves_by_label E w w1 context =
     (cursor_of E w1 context = cursor_of E w context \<or>
      cursor_of E w1 context \<in> set (map snd (label_table E w context)))"

definition turn_ok ::
  "host \<Rightarrow> runner \<Rightarrow> world \<Rightarrow> token list list \<Rightarrow> jsval \<Rightarrow> jsval \<Rightarrow> jsval \<Rightarrow> nat \<Rightarrow> bool" where
  "turn_ok E run w compiled context input srcObject depth =
     (case executeAction E run (instr_at compiled (cursor_of E w context))
             context input srcObject depth w of
        Some (Inr input', w1) \<Rightarrow> keeps_labels E w w1 context \<and> moves_by_label E w w1 context
      | _ \<Rightarrow> True)"

text \<open>The first \<open>k\<close> turns of the loop from \<open>w\<close> on, as far as the loop gets, respect the labels.\<close>

fun turns_ok ::
  "host \<Rightarrow> runner \<Rightarrow> nat \<Rightarrow> world \<Rightarrow> token list list \<Rightarrow> jsval \<Rightarrow> jsval \<Rightarrow> jsval \<Rightarrow> nat \<Rightarrow> bool" where
  "turns_ok E run 0 w compiled context input srcObject depth = True"
| "turns_ok E run (Suc k) w compiled context input srcObject depth =
     (turn_ok E run w compiled context input srcObject depth \<and>
      (case loop_iter E run w compiled context input srcObject depth of
         Next w2 input' \<Rightarrow> turns_ok E run k w2 compiled context input' srcObject depth
       | _ \<Rightarrow> True))"

text \<open>Every entry of a label table is an index into a program of length \<open>len\<close>.\<close>

definition table_ok :: "(string \<times> jsval) list \<Rightarrow> nat \<Rightarrow> bool" where
  "table_ok T len = list_all (\<lambda>p. case snd p of Num j \<Rightarrow> 0 \<le> j \<and> j < int len | _ \<Rightarrow> False) T"

text \<open>
  The states in which the loop of \<open>execute\<close> finds the context object at \<open>c\<close>: its cursor is in
  range, \<open>labels\<close> is not the context itself, and the entries of the label table are indices
  into the program.
\<close>

definition loop_inv :: "host \<Rightarrow> world \<Rightarrow> nat \<Rightarrow> token list list \<Rightarrow> bool" where
  "loop_inv E w c compiled =
     (cursor_in_range E w (Ref c) compiled \<and>
      get_prop E (w_heap w) (Ref c) ''labels'' \<noteq> Ref c \<and>
      table_ok (label_table E w (Ref c)) (length compiled))"

text \<open>
  A host with two classes that have hooks which do nothing: the instances of \<open>Json\<close> have a
  \<open>toJSON\<close> method, those of \<open>Hooked\<close>, which every construction makes, a \<open>fromJSON\<close> method.
\<close>

definition hook_host :: host where
  "hook_host =
     \<lparr>compareWildcards = (\<lambda>text rule. glob rule text),
      call_fn = (\<lambda>f this args h. (Inr Undefined, h)),
      new_fn = (\<lambda>f args h. (Inr (Ref (length h)), h @ [\<lparr>ctor = ''Hooked'', props = []\<rparr>])),
      fn_name = (\<lambda>f. ''Hooked''),
      members = (\<lambda>c k. if (c = ''Json'' \<and> k = ''toJSON'') \<or> (c = ''Hooked'' \<and> k = ''fromJSON'')
                        then Some (Fn 1) else None),
      statics = (\<lambda>f k. None)\<rparr>"






section \<open>Properties\<close>

subsection \<open>Property maps\<close>

lemma map_of_obj_set: "map_of (obj_set k v ps) k' = (if k' = k then Some v else map_of ps k')"
  by (induction ps) auto

lemmas proto_defs = inherited_def object_prototype_def object_prototype_keys_def function_prop_def

lemma plain_lookup_Own: "map_of m k = Some v \<Longrightarrow> plain_lookup m k = Own v"
  by (simp add: plain_lookup_def)





subsection \<open>Expansion of \<open>$super\<close>\<close>





subsection \<open>Registration without overwrite\<close>

text \<open>
  C8.  Registering a pipeline without \<open>overwrite\<close> under a tag that holds a pipeline, or a
  configuration without \<open>overwrite\<close> under a tag that holds a truthy configuration, leaves
  the whole container as it was: maps, caches and parent.  Nothing can be raised: neither
  function has an error result.
\<close>

theorem register_without_overwrite_noop:
  "(map_of (pipelines (own c)) tag = Some p \<longrightarrow> registerPipeline E c tag lines False = c) \<and>
   (map_of (configurations (own c)) tag = Some v \<and> truthy v \<longrightarrow>
      registerConfiguration c tag cfg False = c)"
  by (cases c) auto

theorem register_without_overwrite_noop_witness:
  "map_of (pipelines (own (registerPipeline sample_host new_Container ''t'' [''get''] True))) ''t''
     = Some (buildPipeline new_Container [''get''] []) \<and>
   registerPipeline sample_host (registerPipeline sample_host new_Container ''t'' [''get''] True)
       ''t'' [''inc input.n''] False
     = registerPipeline sample_host new_Container ''t'' [''get''] True \<and>
   map_of (configurations (own (registerConfiguration new_Container ''t'' (Str ''en'') True))) ''t''
     = Some (Str ''en'') \<and> truthy (Str ''en'') \<and>
   registerConfiguration (registerConfiguration new_Container ''t'' (Str ''en'') True)
       ''t'' (Num 7) False
     = registerConfiguration new_Container ''t'' (Str ''en'') True"
proof -
  let ?c = "registerPipeline sample_host new_Container ''t'' [''get''] True"
  let ?d = "registerConfiguration new_Container ''t'' (Str ''en'') True"
  have p: "map_of (pipelines (own ?c)) ''t'' = Some (buildPipeline new_Container [''get''] [])"
    by (simp add: new_Container_def getPipeline_def map_of_obj_set buildPipeline_def Let_def)
  have v: "map_of (configurations (own ?d)) ''t'' = Some (Str ''en'') \<and> truthy (Str ''en'')"
    by (simp add: new_Container_def)
  from p v
    register_without_overwrite_noop [where c = ?c and tag = "''t''" and E = sample_host
      and lines = "[''inc input.n'']" and p = "buildPipeline new_Container [''get''] []"]
    register_without_overwrite_noop [where c = ?d and tag = "''t''" and v = "Str ''en''"
      and cfg = "Num 7"]
  show ?thesis by blast
qed

text \<open>
  The tag of a configuration that is \<open>0\<close> is present, but \<open>!this.configurations[tag]\<close> holds
  for it, and the second registration replaces it.
\<close>

theorem registerConfiguration_falsy_counterexample:
  "map_of (configurations (own (registerConfiguration new_Container ''t'' (Num 0) True))) ''t''
     = Some (Num 0) \<and>
   registerConfiguration (registerConfiguration new_Container ''t'' (Num 0) True) ''t'' (Num 7) False
     \<noteq> registerConfiguration new_Container ''t'' (Num 0) True"
  by (simp add: new_Container_def)

subsection \<open>Blank lines\<close>

lemma compile_line_blank: "trim line = [] \<Longrightarrow> compile_line line = [Reference []]"
  by (simp add: compile_line_def startsWith_def getTokenFromWord_def op_words_def)

lemma resolvePath_empty: "resolvePath E w (Some []) context input srcObject = (Inr context, w)"
  by (simp add: resolvePath_def resolvePathWithType_def path_head_def trim_def startsWith_def
      isnum_def path_root_def Let_def is_digit_def dquote_def squote_def)

lemma executeAction_empty_step:
  "executeAction E run (Some []) context input srcObject depth w = Some (Inl TypeError, w)"
  by (simp add: executeAction_def)

text \<open>
  C9, as the code has it.  A line that is empty once trimmed compiles to the one-token
  instruction \<open>[Reference ""]\<close>, not to an empty vector.  Executing that instruction is the
  reference step on the empty path: the path resolves to the execution context, and unless
  the context has a truthy \<open>run\<close> property, the context object is the result, which the
  loop makes the new input.
\<close>

theorem blank_line_compiles_to_empty_reference:
  "(\<forall>i < length pipeline. trim (pipeline ! i) = [] \<longrightarrow> compile pipeline ! i = [Reference []]) \<and>
   (trim line = [] \<and> \<not> truthy (get_prop E (w_heap w) (Ref a) ''run'') \<longrightarrow>
      executeAction E run (Some (compile_line line)) (Ref a) input srcObject depth w
        = Some (Inr (Ref a), w))"
  by (simp add: compile_def compile_line_blank executeAction_def has_arrow_def
      executeReference_def resolvePath_empty Let_def)

theorem blank_line_compiles_to_empty_reference_witness:
  "trim '' '' = [] \<and> compile [''get'', '' ''] ! 1 = [Reference []] \<and>
   \<not> truthy (get_prop sample_host [\<lparr>ctor = ''Object'', props = []\<rparr>] (Ref 0) ''run'') \<and>
   executeAction sample_host (runPipeline sample_host 0) (Some (compile_line '' '')) (Ref 0)
       (Num 5) Undefined 0 \<lparr>w_cont = new_Container, w_heap = [\<lparr>ctor = ''Object'', props = []\<rparr>]\<rparr>
     = Some (Inr (Ref 0), \<lparr>w_cont = new_Container, w_heap = [\<lparr>ctor = ''Object'', props = []\<rparr>]\<rparr>)"
proof -
  have t: "trim '' '' = []" by (simp add: trim_def is_ws_def)
  have r: "\<not> truthy (get_prop sample_host [\<lparr>ctor = ''Object'', props = []\<rparr>] (Ref 0) ''run'')"
    by (simp add: proto_defs)
  from t r
    blank_line_compiles_to_empty_reference [where pipeline = "[''get'', '' '']" and line = "'' ''"
      and w = "\<lparr>w_cont = new_Container, w_heap = [\<lparr>ctor = ''Object'', props = []\<rparr>]\<rparr>"
      and a = 0 and E = sample_host and run = "runPipeline sample_host 0" and input = "Num 5"
      and srcObject = Undefined and depth = 0]
  show ?thesis by simp
qed

text \<open>
  An empty line and a line of blanks do not compile to empty vectors, and running the
  one-line pipeline of an empty line on the input object \<open>Ref 0\<close> returns another object, the
  execution context \<open>Ref 2\<close>.
\<close>

theorem blank_line_counterexample:
  "compile [[], ''  ''] = [[Reference []], [Reference []]] \<and>
   map_option fst
     (runPipeline sample_host 5 \<lparr>w_cont = new_Container, w_heap = [\<lparr>ctor = ''Object'', props = []\<rparr>]\<rparr>
        (Built (buildPipeline new_Container [[]] [])) (Ref 0) Undefined 0)
     = Some (Inr (Ref 2))"
  by code_simp

subsection \<open>The depth cap\<close>



lemma exec_loop_Exit:
  "loop_iter E run w compiled context input srcObject depth = Exit r \<Longrightarrow>
   exec_loop E run fuel w compiled context input srcObject depth = Some r"
  by (cases fuel) auto

















































subsection \<open>The counter pipeline\<close>

lemma compiler_unique: "(k :: compiler) = DefaultCompiler"
  by (cases k) simp

lemma pl_compiled_buildPipeline:
  "pl_compiled (buildPipeline c src prev) = compile (expand_lines src prev)"
  by (simp add: buildPipeline_def Let_def compiler_unique [of "getCompiler c _"])

lemma compile_counter:
  "compile counter_pipeline =
     [[Op Set, Reference ''input.count'', Reference ''0''], [Op Label, Reference ''loop''],
      [Op Inc, Reference ''input.count''], [Op Lt, Reference ''input.count'', Reference ''3''],
      [Op Je, Reference ''loop''], [Op Get, Reference ''input'']]"
  by code_simp

lemmas path_defs = resolvePath_def resolvePathWithType_def path_head_def trim_def is_ws_def
  startsWith_def isnum_def is_digit_def digits_value_def path_root_def Let_def dquote_def
  squote_def buildLiteral_def read_prop_def parent_path_def

lemma resolvePath_input: "resolvePath E w (Some ''input'') ctx inp so = (Inr inp, w)"
  by (simp add: path_defs)

lemma resolvePath_0: "resolvePath E w (Some ''0'') ctx inp so = (Inr (Num 0), w)"
  by (simp add: path_defs)

lemma resolvePath_1: "resolvePath E w (Some ''1'') ctx inp so = (Inr (Num 1), w)"
  by (simp add: path_defs)

lemma resolvePath_3: "resolvePath E w (Some ''3'') ctx inp so = (Inr (Num 3), w)"
  by (simp add: path_defs)

lemma resolvePath_count:
  "get_prop E (w_heap w) (Ref a) ''count'' = Num n \<Longrightarrow>
   resolvePath E w (Some ''input.count'') ctx (Ref a) so = (Inr (Num n), w)"
  by (simp add: path_defs)

lemmas step_defs = loop_iter_def loop_test_def cursor_of_def advance_def executeAction_def
  has_arrow_def step_at_def opt_value_def opt_value_or_def value_key_def read_prop_def
  js_lt_def js_add_def setValue_def incValue_def ltValue_def compareValue_def getValue_def
  assign_leaf_def goto_step_def doGoto_def parent_path_def startsWith_def
  nth_append nth_list_update list_update_append

text \<open>The turns of the loop on the counter pipeline, one for each instruction.\<close>

lemma counter_steps:
  assumes a: "a < length (w_heap w)"
  shows "loop_iter E run (counter_state w a [] 0 []) (compile counter_pipeline)
             (run_context w) (Ref a) so d
           = Next (counter_state w a [(''count'', Num 0)] 1 []) (Ref a)"
    and "\<And>n fl. loop_iter E run (counter_state w a [(''count'', Num n)] 1 fl)
             (compile counter_pipeline) (run_context w) (Ref a) so d
           = Next (counter_state w a [(''count'', Num n)] 2 fl) (Ref a)"
    and "\<And>n fl. loop_iter E run (counter_state w a [(''count'', Num n)] 2 fl)
             (compile counter_pipeline) (run_context w) (Ref a) so d
           = Next (counter_state w a [(''count'', Num (n + 1))] 3 fl) (Ref a)"
    and "\<And>n. loop_iter E run (counter_state w a [(''count'', Num n)] 3 [])
             (compile counter_pipeline) (run_context w) (Ref a) so d
           = Next (counter_state w a [(''count'', Num n)] 4 [(''floating'', Bool (n < 3))]) (Ref a)"
    and "\<And>n b. loop_iter E run (counter_state w a [(''count'', Num n)] 3 [(''floating'', Bool b)])
             (compile counter_pipeline) (run_context w) (Ref a) so d
           = Next (counter_state w a [(''count'', Num n)] 4 [(''floating'', Bool (n < 3))]) (Ref a)"
    and "\<And>n. loop_iter E run (counter_state w a [(''count'', Num n)] 4 [(''floating'', Bool True)])
             (compile counter_pipeline) (run_context w) (Ref a) so d
           = Next (counter_state w a [(''count'', Num n)] 2 [(''floating'', Bool True)]) (Ref a)"
    and "\<And>n. loop_iter E run (counter_state w a [(''count'', Num n)] 4 [(''floating'', Bool False)])
             (compile counter_pipeline) (run_context w) (Ref a) so d
           = Next (counter_state w a [(''count'', Num n)] 5 [(''floating'', Bool False)]) (Ref a)"
    and "\<And>n. loop_iter E run (counter_state w a [(''count'', Num n)] 5 [(''floating'', Bool False)])
             (compile counter_pipeline) (run_context w) (Ref a) so d
           = Next (counter_state w a [(''count'', Num n)] 6 [(''floating'', Bool False)]) Undefined"
    and "\<And>ps fl inp. loop_iter E run (counter_state w a ps 6 fl)
             (compile counter_pipeline) (run_context w) inp so d
           = Exit (Inr inp, counter_state w a ps 6 fl)"
  using a
  unfolding counter_state_def run_context_def compile_counter
  by (simp_all add: step_defs resolvePath_input resolvePath_0 resolvePath_1 resolvePath_3
        resolvePath_count resolvePath_def [of _ _ None] resolvePath_empty proto_defs)

lemma expand_counter: "expand_lines counter_pipeline [] = counter_pipeline"
  by code_simp

lemma findLabels_counter:
  "findLabels (h @ [\<lparr>ctor = ''Object'', props = []\<rparr>, x]) (compile counter_pipeline)
       (Ref (length h)) 0
     = (None, h @ [\<lparr>ctor = ''Object'', props = [(''loop'', Num 1)]\<rparr>, x])"
  by (simp add: compile_counter value_key_def)

text \<open>
  C1, as the code has it.  Run at depth 0 on an empty object, with any host, container,
  \<open>srcObject\<close> and at least 13 units of fuel, the counter pipeline built by the default
  compiler ends and returns \<open>undefined\<close>: its last line \<open>get input\<close> reads the key \<open>input\<close> of
  the execution context, which has none.  The input object has become \<open>{count: 3}\<close>.
\<close>

theorem counter_pipeline_result:
  assumes a: "a < length (w_heap w)" and empty: "props (w_heap w ! a) = []" and fuel: "13 \<le> fuel"
  shows "\<exists>w'. runPipeline E fuel w (Built (buildPipeline c counter_pipeline [])) (Ref a) srcObject 0
            = Some (Inr Undefined, w')
          \<and> props (w_heap w' ! a) = [(''count'', Num 3)] \<and> w_cont w' = w_cont w"
proof -
  from fuel obtain k where k: "fuel = Suc (12 + k)"
    by (metis add_Suc le_Suc_ex eval_nat_numeral(3) semiring_norm(5))
  have same: "(w_heap w)[a := (w_heap w ! a)\<lparr>props := []\<rparr>] = w_heap w"
    using empty a by (metis jsobject.surjective jsobject.update_convs(2) list_update_id)
  have init: "execute E run n w (compile counter_pipeline) (Ref a) srcObject 0
      = exec_loop E run n (counter_state w a [] 0 []) (compile counter_pipeline)
          (run_context w) (Ref a) srcObject 0" for run n
    by (simp add: execute_def loop_start_def alloc_def findLabels_counter counter_state_def same
        run_context_def)
  have loop: "exec_loop E run (12 + k) (counter_state w a [] 0 []) (compile counter_pipeline)
        (run_context w) (Ref a) srcObject 0
      = Some (Inr Undefined, counter_state w a [(''count'', Num 3)] 6 [(''floating'', Bool False)])"
    for run
    by (simp add: eval_nat_numeral counter_steps [OF a] exec_loop_Exit [OF counter_steps(9) [OF a]])
  have final: "props (w_heap (counter_state w a [(''count'', Num 3)] 6 [(''floating'', Bool False)]) ! a)
      = [(''count'', Num 3)]"
    using a by (simp add: counter_state_def nth_append)
  have "runPipeline E fuel w (Built (buildPipeline c counter_pipeline [])) (Ref a) srcObject 0
      = execute E (runPipeline E (12 + k)) (12 + k) w (compile counter_pipeline) (Ref a) srcObject 0"
    unfolding k by (subst runPipeline.simps(2)) (simp add: pl_compiled_buildPipeline expand_counter)
  also have "\<dots> = Some (Inr Undefined,
      counter_state w a [(''count'', Num 3)] 6 [(''floating'', Bool False)])"
    by (simp only: init loop)
  finally show ?thesis
    using final by (simp add: counter_state_def)
qed

theorem counter_pipeline_result_witness:
  "0 < length (w_heap sample_world) \<and> props (w_heap sample_world ! 0) = [] \<and>
   map_option fst
     (runPipeline sample_host 13 sample_world
        (Built (buildPipeline new_Container counter_pipeline [])) (Ref 0) (Str ''src'') 0)
     = Some (Inr Undefined)"
proof -
  have a: "0 < length (w_heap sample_world)" and e: "props (w_heap sample_world ! 0) = []"
    by (simp_all add: sample_world_def)
  have f: "(13::nat) \<le> 13" by simp
  from counter_pipeline_result [OF a e f, of sample_host new_Container "Str ''src''"]
  obtain w' where "runPipeline sample_host 13 sample_world
        (Built (buildPipeline new_Container counter_pipeline [])) (Ref 0) (Str ''src'') 0
      = Some (Inr Undefined, w')"
    by blast
  then show ?thesis using a e by simp
qed

text \<open>
  On the store with one empty object the run returns \<open>undefined\<close>, not the object
  \<open>{count: 3}\<close>; that object is the input, at \<open>Ref 0\<close>, which is not what is returned.
\<close>

theorem counter_pipeline_counterexample:
  "runPipeline sample_host 20 sample_world
       (Built (buildPipeline new_Container counter_pipeline [])) (Ref 0) Undefined 0
     = Some (Inr Undefined,
         sample_world\<lparr>w_heap :=
           [\<lparr>ctor = ''Object'', props = [(''count'', Num 3)]\<rparr>,
            \<lparr>ctor = ''Object'', props = [(''loop'', Num 1)]\<rparr>,
            \<lparr>ctor = ''Object'',
             props = [(''cursor'', Num 6), (''labels'', Ref 1), (''floating'', Bool False)]\<rparr>]\<rparr>)"
  by code_simp

subsection \<open>Lookup order of \<open>get\<close>\<close>


lemma first_match_None: "first_match P ks = None \<longleftrightarrow> list_all (\<lambda>x. \<not> P x) ks"
  by (induction ks) auto




lemma token_register:
  "register sample_host new_Container ''token-*'' (Str ''tok'') True [] = (None, Container token_fields None, [])"
  "register sample_host (Container (own new_Container) (Some new_Container)) ''token-*'' (Str ''tok'') True []
     = (None, Container token_fields (Some new_Container), [])"
  by code_simp+



subsection \<open>Singletons\<close>

lemma get_item_singleton:
  assumes "isSingleton it" and "get_item E it settings h = (Inr r, h')"
  shows "r = it_instance it"
    and "truthy (it_instance it) \<and> truthy (get_prop E h (it_instance it) ''applySettings'') \<longrightarrow>
         (\<exists>ret. invoke E (get_prop E h (it_instance it) ''applySettings'') (it_instance it)
                   [AVal (get_prop E h (it_instance it) ''settings''), AVal settings] h = (Inr ret, h'))"
    and "\<not> (truthy (it_instance it) \<and> truthy (get_prop E h (it_instance it) ''applySettings'')) \<longrightarrow> h' = h"
  using assms by (auto simp: get_item_def split: if_splits prod.splits sum.splits)

lemma get_strict_hit:
  "map_of (factory (own c)) name = Some it \<Longrightarrow>
   get E c name settings h = (fst (get_item E it settings h), c, snd (get_item E it settings h))"
  by (cases c) (simp add: factory_item_def plain_lookup_Own split: prod.splits)

text \<open>
  C4.  For a name whose factory item is a singleton, two successive calls of \<open>get\<close> that
  return, with any settings, both return the item's instance and leave the container as it
  was (so the same holds for every later call).  When the instance is truthy and has a truthy
  \<open>applySettings\<close>, each call invokes it once, on the instance, with the instance's \<open>settings\<close>
  and the call's settings: the store after the call is the store that invocation left.
\<close>

theorem singleton_get_identity:
  assumes reg: "map_of (factory (own c)) name = Some it" and single: "isSingleton it"
    and g1: "get E c name cfg1 h0 = (Inr r1, c1, h1)"
    and g2: "get E c1 name cfg2 h1 = (Inr r2, c2, h2)"
  shows "r1 = it_instance it \<and> r2 = it_instance it \<and> c1 = c \<and> c2 = c \<and>
    (truthy (it_instance it) \<and> truthy (get_prop E h0 (it_instance it) ''applySettings'') \<longrightarrow>
       (\<exists>ret. invoke E (get_prop E h0 (it_instance it) ''applySettings'') (it_instance it)
                 [AVal (get_prop E h0 (it_instance it) ''settings''), AVal cfg1] h0 = (Inr ret, h1))) \<and>
    (truthy (it_instance it) \<and> truthy (get_prop E h1 (it_instance it) ''applySettings'') \<longrightarrow>
       (\<exists>ret. invoke E (get_prop E h1 (it_instance it) ''applySettings'') (it_instance it)
                 [AVal (get_prop E h1 (it_instance it) ''settings''), AVal cfg2] h1 = (Inr ret, h2)))"
proof -
  from g1 get_strict_hit [OF reg, of E cfg1 h0]
  have i1: "get_item E it cfg1 h0 = (Inr r1, h1)" and c1: "c1 = c"
    by (simp_all add: prod_eq_iff)
  from g2 c1 get_strict_hit [OF reg, of E cfg2 h1]
  have i2: "get_item E it cfg2 h1 = (Inr r2, h2)" and c2: "c2 = c"
    by (simp_all add: prod_eq_iff)
  from get_item_singleton [OF single i1] get_item_singleton [OF single i2] c1 c2
  show ?thesis by blast
qed

theorem singleton_get_identity_witness:
  "get counting_host (Container service_fields None) ''svc'' (Str ''cfg1'') (service_heap 0)
     = (Inr (Ref 0), Container service_fields None, service_heap 1) \<and>
   get counting_host (Container service_fields None) ''svc'' (Str ''cfg2'') (service_heap 1)
     = (Inr (Ref 0), Container service_fields None, service_heap 2)"
proof -
  let ?c = "Container service_fields None"
  let ?it = "\<lparr>it_name = ''svc'', isSingleton = True, it_instance = Ref 0\<rparr>"
  have reg: "map_of (factory (own ?c)) ''svc'' = Some ?it" by (simp add: service_fields_def)
  have single: "isSingleton ?it" by simp
  have g1: "get counting_host ?c ''svc'' (Str ''cfg1'') (service_heap 0) = (Inr (Ref 0), ?c, service_heap 1)"
    by code_simp
  have g2: "get counting_host ?c ''svc'' (Str ''cfg2'') (service_heap 1) = (Inr (Ref 0), ?c, service_heap 2)"
    by code_simp
  from singleton_get_identity [OF reg single g1 g2] g1 g2 show ?thesis by simp
qed

subsection \<open>Broken paths\<close>

lemma truthy_not_nullish: "truthy v \<Longrightarrow> \<not> is_nullish v"
  by (cases v) simp_all

lemma is_function_truthy: "is_function v \<Longrightarrow> truthy v"
  by (cases v) simp_all

lemma truthy_bind: "is_function v \<Longrightarrow> truthy (bind_fn v c)"
  by (cases v) simp_all

lemma walk_breaks:
  "Suc i < length ts \<Longrightarrow> \<not> truthy (chain E h cur ts ! i) \<Longrightarrow> walk E h step cur ts = Inl (PathNotFound step)"
proof (induction ts arbitrary: cur i)
  case Nil
  then show ?case by simp
next
  case (Cons t ts)
  show ?case
  proof (cases i)
    case 0
    with Cons.prems show ?thesis
      by (cases "is_function (get_prop E h cur t)") (auto simp: Let_def truthy_bind)
  next
    case (Suc j)
    let ?v = "get_prop E h cur t"
    let ?v' = "if is_function ?v then bind_fn ?v cur else ?v"
    from Suc Cons.prems have j: "Suc j < length ts" and f: "\<not> truthy (chain E h ?v' ts ! j)"
      by (simp_all add: Let_def)
    from Cons.IH [OF j f] have rec: "walk E h step ?v' ts = Inl (PathNotFound step)" .
    from j have ne: "ts \<noteq> []" by auto
    show ?thesis
    proof (cases "truthy cur \<and> truthy ?v")
      case True
      then show ?thesis using rec ne by (simp add: read_prop_def truthy_not_nullish)
    next
      case False
      then show ?thesis using ne by auto
    qed
  qed
qed

lemma walk_reaches:
  "ts \<noteq> [] \<Longrightarrow> truthy cur \<Longrightarrow> (\<forall>i. Suc i < length ts \<longrightarrow> truthy (chain E h cur ts ! i)) \<Longrightarrow>
   walk E h step cur ts = Inr (last (chain E h cur ts))"
proof (induction ts arbitrary: cur)
  case Nil
  then show ?case by simp
next
  case (Cons t ts)
  let ?v = "get_prop E h cur t"
  let ?v' = "if is_function ?v then bind_fn ?v cur else ?v"
  show ?case
  proof (cases ts)
    case Nil
    with Cons.prems show ?thesis by (simp add: read_prop_def truthy_not_nullish Let_def)
  next
    case (Cons u us)
    from Cons.prems(3) [rule_format, of 0] Cons have tv': "truthy ?v'" by (simp add: Let_def)
    then have tv: "truthy ?v" by (auto simp: is_function_truthy split: if_splits)
    have rest: "\<forall>i. Suc i < length ts \<longrightarrow> truthy (chain E h ?v' ts ! i)"
    proof (intro allI impI)
      fix i assume "Suc i < length ts"
      with Cons.prems(3) [rule_format, of "Suc i"] show "truthy (chain E h ?v' ts ! i)"
        by (simp add: Let_def)
    qed
    from Cons have ne: "ts \<noteq> []" by simp
    from Cons.IH [OF ne tv' rest] have "walk E h step ?v' ts = Inr (last (chain E h ?v' ts))" .
    moreover have "chain E h ?v' ts \<noteq> []" using ne by (cases ts) (simp_all add: Let_def)
    ultimately show ?thesis using Cons.prems(2) tv ne
      by (simp add: read_prop_def truthy_not_nullish Let_def)
  qed
qed

lemma walk_falsy_owner:
  "\<not> truthy cur \<Longrightarrow> 2 \<le> length ts \<Longrightarrow> walk E h step cur ts = Inl (PathNotFound step)"
  by (cases ts) auto

text \<open>
  C10.  Let a path have at least two tokens \<open>ts\<close> after its head, a head that is not a
  literal, and a root that resolves.  The values found along the path are the root and, for
  each token of \<open>ts\<close>, the result of its lookup, own or inherited, on the value before it.  If
  one of these values before the last is falsy (absent or present), \<open>resolvePathWithType\<close>
  raises \<open>PathNotFound\<close> for the path.  If all of them are truthy, it does not raise: it
  returns the value found at the last token, as a reference whenever that value is falsy.
\<close>

theorem resolvePath_intermediate_falsy:
  assumes tokens: "split_chr CHR ''.'' step = t0 # ts" and two: "2 \<le> length ts"
    and nonlit: "\<not> literal_head (path_head step)"
    and root: "path_root E w (path_head step) context input srcObject = (Inr root, w')"
  shows "((\<exists>i < length ts. \<not> truthy ((root # chain E (w_heap w') root ts) ! i)) \<longrightarrow>
            resolvePathWithType E w step context input srcObject = (Inl (PathNotFound step), w')) \<and>
         ((\<forall>i < length ts. truthy ((root # chain E (w_heap w') root ts) ! i)) \<longrightarrow>
            resolvePathWithType E w step context input srcObject
              = (Inr \<lparr>r_type = (if is_function (last (chain E (w_heap w') root ts)) then RFunction else RReference),
                      r_src = step, r_value = last (chain E (w_heap w') root ts), r_context = context\<rparr>, w') \<and>
            (\<not> truthy (last (chain E (w_heap w') root ts)) \<longrightarrow>
               \<not> is_function (last (chain E (w_heap w') root ts))))"
proof -
  from two have ne: "ts \<noteq> []" by auto
  have unfold: "resolvePathWithType E w step context input srcObject =
      (case walk E (w_heap w') step root ts of
         Inl e \<Rightarrow> (Inl e, w')
       | Inr v \<Rightarrow> (Inr \<lparr>r_type = (if is_function v then RFunction else RReference),
                        r_src = step, r_value = v, r_context = context\<rparr>, w'))"
    using nonlit root tokens by (simp add: resolvePathWithType_def literal_head_def Let_def)
  have broken: "walk E (w_heap w') step root ts = Inl (PathNotFound step)"
    if "i < length ts" "\<not> truthy ((root # chain E (w_heap w') root ts) ! i)" for i
  proof (cases i)
    case 0
    with that two show ?thesis by (simp add: walk_falsy_owner)
  next
    case (Suc j)
    with that show ?thesis by (simp add: walk_breaks)
  qed
  have whole: "walk E (w_heap w') step root ts = Inr (last (chain E (w_heap w') root ts))"
    if all: "\<forall>i < length ts. truthy ((root # chain E (w_heap w') root ts) ! i)"
  proof -
    from all ne have "truthy root" by (metis length_greater_0_conv nth_Cons_0)
    moreover have "\<forall>i. Suc i < length ts \<longrightarrow> truthy (chain E (w_heap w') root ts ! i)"
      using all by (metis nth_Cons_Suc)
    ultimately show ?thesis by (simp add: walk_reaches [OF ne])
  qed
  show ?thesis
    using broken whole by (auto simp: unfold is_function_truthy)
qed

theorem resolvePath_intermediate_falsy_witness:
  "resolvePathWithType sample_host
       \<lparr>w_cont = new_Container,
        w_heap = [\<lparr>ctor = ''Object'', props = [(''a'', Ref 1)]\<rparr>,
                  \<lparr>ctor = ''Object'', props = [(''b'', Num 0)]\<rparr>]\<rparr>
       ''input.a.b.c'' Undefined (Ref 0) Undefined
     = (Inl (PathNotFound ''input.a.b.c''),
        \<lparr>w_cont = new_Container,
         w_heap = [\<lparr>ctor = ''Object'', props = [(''a'', Ref 1)]\<rparr>,
                   \<lparr>ctor = ''Object'', props = [(''b'', Num 0)]\<rparr>]\<rparr>) \<and>
   resolvePathWithType sample_host
       \<lparr>w_cont = new_Container,
        w_heap = [\<lparr>ctor = ''Object'', props = [(''a'', Ref 1)]\<rparr>,
                  \<lparr>ctor = ''Object'', props = [(''b'', Num 0)]\<rparr>]\<rparr>
       ''input.a.b'' Undefined (Ref 0) Undefined
     = (Inr \<lparr>r_type = RReference, r_src = ''input.a.b'', r_value = Num 0, r_context = Undefined\<rparr>,
        \<lparr>w_cont = new_Container,
         w_heap = [\<lparr>ctor = ''Object'', props = [(''a'', Ref 1)]\<rparr>,
                   \<lparr>ctor = ''Object'', props = [(''b'', Num 0)]\<rparr>]\<rparr>) \<and>
   resolvePathWithType sample_host
       \<lparr>w_cont = new_Container,
        w_heap = [\<lparr>ctor = ''Object'', props = [(''a'', Ref 1)]\<rparr>,
                  \<lparr>ctor = ''Object'', props = [(''b'', Num 0)]\<rparr>]\<rparr>
       ''input.a.constructor'' Undefined (Ref 0) Undefined
     = (Inr \<lparr>r_type = RFunction, r_src = ''input.a.constructor'',
             r_value = BoundBuiltin ''Object'' (Ref 1), r_context = Undefined\<rparr>,
        \<lparr>w_cont = new_Container,
         w_heap = [\<lparr>ctor = ''Object'', props = [(''a'', Ref 1)]\<rparr>,
                   \<lparr>ctor = ''Object'', props = [(''b'', Num 0)]\<rparr>]\<rparr>)"
proof -
  let ?h = "[\<lparr>ctor = ''Object'', props = [(''a'', Ref 1)]\<rparr>,
             \<lparr>ctor = ''Object'', props = [(''b'', Num 0)]\<rparr>]"
  let ?w = "\<lparr>w_cont = new_Container, w_heap = ?h\<rparr>"
  have t3: "split_chr CHR ''.'' ''input.a.b.c'' = ''input'' # [''a'', ''b'', ''c'']"
    and t2: "split_chr CHR ''.'' ''input.a.b'' = ''input'' # [''a'', ''b'']"
    and t1: "split_chr CHR ''.'' ''input.a.constructor'' = ''input'' # [''a'', ''constructor'']"
    by simp_all
  have l3: "(2::nat) \<le> length [''a'', ''b'', ''c'']" and l2: "(2::nat) \<le> length [''a'', ''b'']"
    and l1: "(2::nat) \<le> length [''a'', ''constructor'']"
    by simp_all
  have h3: "path_head ''input.a.b.c'' = ''input''" and h2: "path_head ''input.a.b'' = ''input''"
    and h1: "path_head ''input.a.constructor'' = ''input''"
    by (simp_all add: path_head_def trim_def is_ws_def)
  have nl: "\<not> literal_head ''input''"
    by (simp add: literal_head_def isnum_def is_digit_def startsWith_def dquote_def squote_def)
  have root: "path_root sample_host ?w ''input'' Undefined (Ref 0) Undefined = (Inr (Ref 0), ?w)"
    by (simp add: path_root_def)
  have c3: "chain sample_host ?h (Ref 0) [''a'', ''b'', ''c''] = [Ref 1, Num 0, Undefined]"
    and c2: "chain sample_host ?h (Ref 0) [''a'', ''b''] = [Ref 1, Num 0]"
    and c1: "chain sample_host ?h (Ref 0) [''a'', ''constructor''] = [Ref 1, BoundBuiltin ''Object'' (Ref 1)]"
    by (simp_all add: Let_def proto_defs sample_host_def)
  have broken: "\<exists>i < length [''a'', ''b'', ''c''].
      \<not> truthy ((Ref 0 # chain sample_host (w_heap ?w) (Ref 0) [''a'', ''b'', ''c'']) ! i)"
    using c3 by (intro exI [of _ 2]) simp
  have whole: "\<forall>i < length [''a'', ''b''].
      truthy ((Ref 0 # chain sample_host (w_heap ?w) (Ref 0) [''a'', ''b'']) ! i)"
    using c2 by (simp add: less_Suc_eq)
  have whole': "\<forall>i < length [''a'', ''constructor''].
      truthy ((Ref 0 # chain sample_host (w_heap ?w) (Ref 0) [''a'', ''constructor'']) ! i)"
    by (simp add: less_Suc_eq Let_def proto_defs)
  from resolvePath_intermediate_falsy [OF t3 l3, of sample_host ?w Undefined "Ref 0" Undefined "Ref 0" ?w]
    h3 nl root broken
  have one: "resolvePathWithType sample_host ?w ''input.a.b.c'' Undefined (Ref 0) Undefined
      = (Inl (PathNotFound ''input.a.b.c''), ?w)"
    by simp
  from resolvePath_intermediate_falsy [OF t2 l2, of sample_host ?w Undefined "Ref 0" Undefined "Ref 0" ?w]
    h2 nl root whole c2
  have two: "resolvePathWithType sample_host ?w ''input.a.b'' Undefined (Ref 0) Undefined
      = (Inr \<lparr>r_type = RReference, r_src = ''input.a.b'', r_value = Num 0, r_context = Undefined\<rparr>, ?w)"
    by simp
  from resolvePath_intermediate_falsy [OF t1 l1, of sample_host ?w Undefined "Ref 0" Undefined "Ref 0" ?w]
    h1 nl root whole' c1
  have three: "resolvePathWithType sample_host ?w ''input.a.constructor'' Undefined (Ref 0) Undefined
      = (Inr \<lparr>r_type = RFunction, r_src = ''input.a.constructor'',
              r_value = BoundBuiltin ''Object'' (Ref 1), r_context = Undefined\<rparr>, ?w)"
    by (simp add: Let_def proto_defs)
  from one two three show ?thesis by simp
qed

subsection \<open>The round trip through JSON\<close>

lemma map_of_obj_delete:
  "map_of (obj_delete k ps) k' = (if k' = k then None else map_of ps k')"
  by (induction ps) (auto simp: obj_delete_def)

lemma toJSON_plain:
  assumes a: "a < length h" and plain: "\<not> truthy (get_prop E h (Ref a) ''toJSON'')"
    and name: "constructor_name E (h @ [\<lparr>ctor = ''Object'', props = props (h ! a)\<rparr>]) (Ref a) = Inr cn"
  shows "toJSON E h (Ref a) =
     (Inr (Ref (length h)),
      h @ [\<lparr>ctor = ''Object'', props = obj_set ''className'' cn (props (h ! a))\<rparr>])"
  using a plain name by (simp add: toJSON_def alloc_def)

lemma assign_props_ref:
  "b < length h \<Longrightarrow> ''__proto__'' \<notin> fst ` set ps \<Longrightarrow>
   assign_props h (Ref b) ps =
     Inr (h[b := (h ! b)\<lparr>props := foldl (\<lambda>acc p. obj_set (fst p) (snd p) acc) (props (h ! b)) ps\<rparr>])"
proof (induction ps arbitrary: h)
  case Nil
  then show ?case by simp
next
  case (Cons p ps)
  let ?h = "h[b := (h ! b)\<lparr>props := obj_set (fst p) (snd p) (props (h ! b))\<rparr>]"
  from Cons.prems have "b < length ?h" and "''__proto__'' \<notin> fst ` set ps" by simp_all
  from Cons.IH [OF this] Cons.prems show ?case by auto
qed

lemma map_of_foldl_obj_set:
  "distinct (map fst ps) \<Longrightarrow>
   map_of (foldl (\<lambda>acc p. obj_set (fst p) (snd p) acc) base ps) k
     = (case map_of ps k of Some v \<Rightarrow> Some v | None \<Rightarrow> map_of base k)"
proof (induction ps arbitrary: base)
  case Nil
  then show ?case by simp
next
  case (Cons p ps)
  then have d: "distinct (map fst ps)" and n: "fst p \<notin> fst ` set ps" by auto
  from n have "map_of ps (fst p) = None" by (simp add: map_of_eq_None_iff)
  with Cons.IH [OF d, of "obj_set (fst p) (snd p) base"] show ?case
    by (cases p) (auto simp: map_of_obj_set split: option.splits)
qed

lemma keys_obj_set: "fst ` set (obj_set k v ps) = insert k (fst ` set ps)"
  by (induction ps) auto

lemma distinct_obj_set: "distinct (map fst ps) \<Longrightarrow> distinct (map fst (obj_set k v ps))"
  by (induction ps) (auto simp: keys_obj_set)

lemma roundtrip_unregistered:
  assumes a: "a < length h" and plain: "\<not> truthy (get_prop E h (Ref a) ''toJSON'')"
    and name: "constructor_name E (h @ [\<lparr>ctor = ''Object'', props = props (h ! a)\<rparr>]) (Ref a) = Inr cn"
    and key: "to_string cn = Inr N"
    and none: "\<not> truthy (plain_get (classes (own c)) N)"
  shows "roundtrip E c (Ref a) settings h =
     (Inr (Ref (Suc (length h))),
      h @ [\<lparr>ctor = ''Object'', props = obj_set ''className'' cn (props (h ! a))\<rparr>,
           \<lparr>ctor = ''Object'',
            props = obj_delete ''className'' (obj_set ''className'' cn (props (h ! a)))\<rparr>])"
  using none key
  by (simp add: roundtrip_def toJSON_plain [OF a plain name] fromJSON_def read_prop_def
      map_of_obj_set rehydrate_def alloc_def nth_append list_update_append)

lemma roundtrip_registered:
  assumes a: "a < length h" and plain: "\<not> truthy (get_prop E h (Ref a) ''toJSON'')"
    and name: "constructor_name E (h @ [\<lparr>ctor = ''Object'', props = props (h ! a)\<rparr>]) (Ref a) = Inr cn"
    and key: "to_string cn = Inr N"
    and reg: "truthy (plain_get (classes (own c)) N)"
    and new: "construct E (plain_get (classes (own c)) N) [AVal settings]
                (h @ [\<lparr>ctor = ''Object'', props = obj_set ''className'' cn (props (h ! a))\<rparr>])
              = (Inr (Ref b), h2)"
    and b: "b < length h2" "b \<noteq> length h"
    and kept: "length h < length h2"
      "h2 ! length h = \<lparr>ctor = ''Object'', props = obj_set ''className'' cn (props (h ! a))\<rparr>"
    and nofrom: "\<not> truthy (get_prop E h2 (Ref b) ''fromJSON'')"
    and noproto: "''__proto__'' \<notin> fst ` set (props (h ! a))"
  shows "roundtrip E c (Ref a) settings h =
     (Inr (Ref b),
      h2[b := (h2 ! b)\<lparr>props := obj_delete ''className''
          (foldl (\<lambda>acc p. obj_set (fst p) (snd p) acc) (props (h2 ! b))
             (obj_set ''className'' cn (props (h ! a))))\<rparr>])"
proof -
  let ?json = "\<lparr>ctor = ''Object'', props = obj_set ''className'' cn (props (h ! a))\<rparr>"
  have tj: "toJSON E h (Ref a) = (Inr (Ref (length h)), h @ [?json])"
    by (rule toJSON_plain [OF a plain name])
  have np: "''__proto__'' \<notin> fst ` set (obj_set ''className'' cn (props (h ! a)))"
    using noproto by (simp add: keys_obj_set)
  have ap: "assign_props h2 (Ref b) (props (h2 ! length h))
      = Inr (h2[b := (h2 ! b)\<lparr>props := foldl (\<lambda>acc p. obj_set (fst p) (snd p) acc) (props (h2 ! b))
             (obj_set ''className'' cn (props (h ! a)))\<rparr>])"
    using kept(2) np by (simp add: assign_props_ref [OF b(1)])
  show ?thesis
    using reg nofrom b kept(1) key
    by (simp add: roundtrip_def tj fromJSON_def read_prop_def map_of_obj_set rehydrate_def
        new ap)
qed

text \<open>
  C7, as the code has it.  Let \<open>x\<close> be an object whose \<open>toJSON\<close> property, own or inherited, is
  falsy and whose \<open>constructor.name\<close> can be read and is a primitive value; \<open>N\<close> is that value
  as a string.  When \<open>classes[N]\<close> is falsy, \<open>fromJSON(toJSON(x))\<close> is a new plain object with
  the fields of \<open>x\<close> other than \<open>className\<close>, and with no \<open>className\<close>.  When \<open>classes[N]\<close> is
  truthy, the result is the object that \<open>new classes[N](settings)\<close> returns: it has the value
  of every field of \<open>x\<close> other than \<open>className\<close>, and no \<open>className\<close>, provided that the
  property \<open>fromJSON\<close> of the new object, own or inherited, is falsy, and that \<open>x\<close> has no field
  \<open>__proto__\<close> of its own.  The constructor is native code, which is handed the settings and
  not the serialised object: it is taken to return another object and to leave the
  serialised one as it was.  The fields of \<open>x\<close> have distinct keys, as those of every object.
\<close>

theorem roundtrip_preserves_fields:
  assumes a: "a < length h" and plain: "\<not> truthy (get_prop E h (Ref a) ''toJSON'')"
    and name: "constructor_name E (h @ [\<lparr>ctor = ''Object'', props = props (h ! a)\<rparr>]) (Ref a) = Inr cn"
    and key: "to_string cn = Inr N"
  shows
   "(\<not> truthy (plain_get (classes (own c)) N) \<longrightarrow>
       (\<exists>r h'. roundtrip E c (Ref a) settings h = (Inr (Ref r), h') \<and> r < length h' \<and>
          ctor (h' ! r) = ''Object'' \<and>
          (\<forall>k. k \<noteq> ''className'' \<longrightarrow> map_of (props (h' ! r)) k = map_of (props (h ! a)) k) \<and>
          map_of (props (h' ! r)) ''className'' = None)) \<and>
    (truthy (plain_get (classes (own c)) N) \<and>
     construct E (plain_get (classes (own c)) N) [AVal settings]
       (h @ [\<lparr>ctor = ''Object'', props = obj_set ''className'' cn (props (h ! a))\<rparr>])
       = (Inr (Ref b), h2) \<and>
     b < length h2 \<and> b \<noteq> length h \<and> length h < length h2 \<and>
     h2 ! length h = \<lparr>ctor = ''Object'', props = obj_set ''className'' cn (props (h ! a))\<rparr> \<and>
     \<not> truthy (get_prop E h2 (Ref b) ''fromJSON'') \<and>
     ''__proto__'' \<notin> fst ` set (props (h ! a)) \<and> distinct (map fst (props (h ! a))) \<longrightarrow>
       (\<exists>h'. roundtrip E c (Ref a) settings h = (Inr (Ref b), h') \<and> b < length h' \<and>
          ctor (h' ! b) = ctor (h2 ! b) \<and>
          (\<forall>k v. k \<noteq> ''className'' \<and> map_of (props (h ! a)) k = Some v \<longrightarrow>
             map_of (props (h' ! b)) k = Some v) \<and>
          map_of (props (h' ! b)) ''className'' = None))"
proof (intro conjI impI)
  assume "\<not> truthy (plain_get (classes (own c)) N)"
  from roundtrip_unregistered [OF a plain name key this, of settings]
  show "\<exists>r h'. roundtrip E c (Ref a) settings h = (Inr (Ref r), h') \<and> r < length h' \<and>
          ctor (h' ! r) = ''Object'' \<and>
          (\<forall>k. k \<noteq> ''className'' \<longrightarrow> map_of (props (h' ! r)) k = map_of (props (h ! a)) k) \<and>
          map_of (props (h' ! r)) ''className'' = None"
    by (simp add: nth_append map_of_obj_delete map_of_obj_set)
next
  assume h: "truthy (plain_get (classes (own c)) N) \<and>
     construct E (plain_get (classes (own c)) N) [AVal settings]
       (h @ [\<lparr>ctor = ''Object'', props = obj_set ''className'' cn (props (h ! a))\<rparr>])
       = (Inr (Ref b), h2) \<and>
     b < length h2 \<and> b \<noteq> length h \<and> length h < length h2 \<and>
     h2 ! length h = \<lparr>ctor = ''Object'', props = obj_set ''className'' cn (props (h ! a))\<rparr> \<and>
     \<not> truthy (get_prop E h2 (Ref b) ''fromJSON'') \<and>
     ''__proto__'' \<notin> fst ` set (props (h ! a)) \<and> distinct (map fst (props (h ! a)))"
  then have rt: "roundtrip E c (Ref a) settings h =
     (Inr (Ref b),
      h2[b := (h2 ! b)\<lparr>props := obj_delete ''className''
          (foldl (\<lambda>acc p. obj_set (fst p) (snd p) acc) (props (h2 ! b))
             (obj_set ''className'' cn (props (h ! a))))\<rparr>])"
    using roundtrip_registered [OF a plain name key, of c settings b h2] by blast
  from h have dist: "distinct (map fst (props (h ! a)))" by simp
  have d: "distinct (map fst (obj_set ''className'' cn (props (h ! a))))"
    by (rule distinct_obj_set [OF dist])
  from h have b: "b < length h2" by simp
  show "\<exists>h'. roundtrip E c (Ref a) settings h = (Inr (Ref b), h') \<and> b < length h' \<and>
          ctor (h' ! b) = ctor (h2 ! b) \<and>
          (\<forall>k v. k \<noteq> ''className'' \<and> map_of (props (h ! a)) k = Some v \<longrightarrow>
             map_of (props (h' ! b)) k = Some v) \<and>
          map_of (props (h' ! b)) ''className'' = None"
    using b by (simp add: rt map_of_obj_delete map_of_foldl_obj_set [OF d] map_of_obj_set)
qed

theorem roundtrip_preserves_fields_witness:
  "roundtrip sample_host (addClass sample_host new_Container (Fn 0) []) (Ref 0) Undefined
       [\<lparr>ctor = ''Thing'', props = [(''n'', Num 1)]\<rparr>]
     = (Inr (Ref 2),
        [\<lparr>ctor = ''Thing'', props = [(''n'', Num 1)]\<rparr>,
         \<lparr>ctor = ''Object'', props = [(''n'', Num 1), (''className'', Str ''Thing'')]\<rparr>,
         \<lparr>ctor = ''Thing'', props = [(''n'', Num 1)]\<rparr>]) \<and>
   fst (roundtrip sample_host new_Container (Ref 0) Undefined
       [\<lparr>ctor = ''Thing'', props = [(''n'', Num 1)]\<rparr>]) = Inr (Ref 2)"
proof -
  let ?h = "[\<lparr>ctor = ''Thing'', props = [(''n'', Num 1)]\<rparr>]"
  let ?c = "addClass sample_host new_Container (Fn 0) []"
  let ?json = "\<lparr>ctor = ''Object'', props = obj_set ''className'' (Str ''Thing'') (props (?h ! 0))\<rparr>"
  let ?h2 = "[\<lparr>ctor = ''Thing'', props = [(''n'', Num 1)]\<rparr>,
         \<lparr>ctor = ''Object'', props = [(''n'', Num 1), (''className'', Str ''Thing'')]\<rparr>,
         \<lparr>ctor = ''Thing'', props = []\<rparr>]"
  have a: "0 < length ?h" by simp
  have plain: "\<not> truthy (get_prop sample_host ?h (Ref 0) ''toJSON'')"
    by (simp add: proto_defs sample_host_def)
  have name: "constructor_name sample_host (?h @ [\<lparr>ctor = ''Object'', props = props (?h ! 0)\<rparr>]) (Ref 0)
      = Inr (Str ''Thing'')"
    by (simp add: constructor_name_def read_prop_def proto_defs sample_host_def)
  have key: "to_string (Str ''Thing'') = Inr ''Thing''" by simp
  have reg: "truthy (plain_get (classes (own ?c)) ''Thing'')"
    and cls: "plain_get (classes (own ?c)) ''Thing'' = Fn 0"
    by (simp_all add: addClass_def new_Container_def sample_host_def plain_get_def plain_lookup_def)
  have none: "\<not> truthy (plain_get (classes (own new_Container)) ''Thing'')"
    by (simp add: new_Container_def plain_get_def plain_lookup_def proto_defs)
  have new: "construct sample_host (plain_get (classes (own ?c)) ''Thing'') [AVal Undefined] (?h @ [?json])
      = (Inr (Ref 2), ?h2)"
    by code_simp
  have rest: "2 < length ?h2 \<and> 2 \<noteq> length ?h \<and> length ?h < length ?h2 \<and>
      ?h2 ! length ?h = ?json \<and>
      \<not> truthy (get_prop sample_host ?h2 (Ref 2) ''fromJSON'') \<and>
      ''__proto__'' \<notin> fst ` set (props (?h ! 0)) \<and> distinct (map fst (props (?h ! 0)))"
    by (simp add: proto_defs sample_host_def)
  have r1: "roundtrip sample_host ?c (Ref 0) Undefined ?h
     = (Inr (Ref 2),
        [\<lparr>ctor = ''Thing'', props = [(''n'', Num 1)]\<rparr>,
         \<lparr>ctor = ''Object'', props = [(''n'', Num 1), (''className'', Str ''Thing'')]\<rparr>,
         \<lparr>ctor = ''Thing'', props = [(''n'', Num 1)]\<rparr>])"
    by code_simp
  from roundtrip_preserves_fields [OF a plain name key, of ?c Undefined 2 ?h2]
    reg new rest
  have "\<exists>h'. roundtrip sample_host ?c (Ref 0) Undefined ?h = (Inr (Ref 2), h')"
    by blast
  moreover from roundtrip_preserves_fields [OF a plain name key, of new_Container Undefined] none
  have "\<exists>r h'. roundtrip sample_host new_Container (Ref 0) Undefined ?h = (Inr (Ref r), h') \<and> r < length h'"
    by blast
  moreover have "fst (roundtrip sample_host new_Container (Ref 0) Undefined ?h) = Inr (Ref 2)"
    by code_simp
  ultimately show ?thesis using r1 by simp
qed

text \<open>
  What the provisos rule out.  (1) An object with a field \<open>className\<close> of its own: \<open>toJSON\<close>
  overwrites the field with the constructor's name and \<open>fromJSON\<close> deletes it, so its value
  \<open>k\<close> does not come back.  (2) An object of a class with a \<open>toJSON\<close> method that returns
  \<open>undefined\<close>: storing \<open>className\<close> raises a \<open>TypeError\<close>.  (3) An object of a registered class
  with a \<open>fromJSON\<close> method that does nothing: the new instance has no field.  (4) An object
  whose field \<open>constructor\<close> is \<open>null\<close>: reading its \<open>name\<close> raises a \<open>TypeError\<close>.  (5) An
  object of a registered class with a field \<open>__proto__\<close> of its own: the assignment of
  \<open>Object.assign\<close> does not make that field.
\<close>

theorem roundtrip_className_counterexample:
  "get_prop sample_host [\<lparr>ctor = ''Object'', props = [(''className'', Str ''k''), (''n'', Num 1)]\<rparr>] (Ref 0) ''className''
     = Str ''k'' \<and>
   roundtrip sample_host new_Container (Ref 0) Undefined
       [\<lparr>ctor = ''Object'', props = [(''className'', Str ''k''), (''n'', Num 1)]\<rparr>]
     = (Inr (Ref 2),
        [\<lparr>ctor = ''Object'', props = [(''className'', Str ''k''), (''n'', Num 1)]\<rparr>,
         \<lparr>ctor = ''Object'', props = [(''className'', Str ''Object''), (''n'', Num 1)]\<rparr>,
         \<lparr>ctor = ''Object'', props = [(''n'', Num 1)]\<rparr>]) \<and>
   roundtrip hook_host new_Container (Ref 0) Undefined [\<lparr>ctor = ''Json'', props = [(''n'', Num 1)]\<rparr>]
     = (Inl TypeError, [\<lparr>ctor = ''Json'', props = [(''n'', Num 1)]\<rparr>]) \<and>
   roundtrip hook_host (addClass hook_host new_Container (Fn 0) []) (Ref 0) Undefined
       [\<lparr>ctor = ''Hooked'', props = [(''n'', Num 1)]\<rparr>]
     = (Inr (Ref 2),
        [\<lparr>ctor = ''Hooked'', props = [(''n'', Num 1)]\<rparr>,
         \<lparr>ctor = ''Object'', props = [(''n'', Num 1), (''className'', Str ''Hooked'')]\<rparr>,
         \<lparr>ctor = ''Hooked'', props = []\<rparr>]) \<and>
   roundtrip sample_host new_Container (Ref 0) Undefined
       [\<lparr>ctor = ''Object'', props = [(''constructor'', Null), (''n'', Num 1)]\<rparr>]
     = (Inl TypeError,
        [\<lparr>ctor = ''Object'', props = [(''constructor'', Null), (''n'', Num 1)]\<rparr>,
         \<lparr>ctor = ''Object'', props = [(''constructor'', Null), (''n'', Num 1)]\<rparr>]) \<and>
   roundtrip sample_host (addClass sample_host new_Container (Fn 0) []) (Ref 0) Undefined
       [\<lparr>ctor = ''Thing'', props = [(''__proto__'', Num 1), (''n'', Num 2)]\<rparr>]
     = (Inr (Ref 2),
        [\<lparr>ctor = ''Thing'', props = [(''__proto__'', Num 1), (''n'', Num 2)]\<rparr>,
         \<lparr>ctor = ''Object'',
          props = [(''__proto__'', Num 1), (''n'', Num 2), (''className'', Str ''Thing'')]\<rparr>,
         \<lparr>ctor = ''Thing'', props = [(''n'', Num 2)]\<rparr>])"
  by code_simp

subsection \<open>The cursor\<close>

lemma table_ok_obj_set:
  "table_ok T n \<Longrightarrow> 0 \<le> j \<Longrightarrow> j < int n \<Longrightarrow> table_ok (obj_set k (Num j) T) n"
  by (induction T) (auto simp: table_ok_def)

lemma table_ok_member:
  "table_ok T n \<Longrightarrow> v \<in> set (map snd T) \<Longrightarrow> \<exists>j. v = Num j \<and> 0 \<le> j \<and> j < int n"
  by (induction T) (auto simp: table_ok_def split: jsval.splits)

text \<open>
  The scan changes the label object alone, and every index it records is an index into the
  program.
\<close>

lemma findLabels_scan:
  "findLabels h compiled (Ref l) i = (None, h') \<Longrightarrow> l < length h \<Longrightarrow>
   table_ok (props (h ! l)) n \<Longrightarrow> i + length compiled \<le> n \<Longrightarrow>
   length h' = length h \<and> (\<forall>j. j \<noteq> l \<longrightarrow> h' ! j = h ! j) \<and> table_ok (props (h' ! l)) n"
proof (induction compiled arbitrary: h i)
  case Nil
  then show ?case by simp
next
  case (Cons st rest)
  show ?case
  proof (cases "st \<noteq> [] \<and> hd st = Op Label")
    case False
    with Cons.prems(1) have "findLabels h rest (Ref l) (Suc i) = (None, h')"
      by (cases st) (auto split: if_splits)
    from Cons.IH [OF this Cons.prems(2,3)] Cons.prems(4) show ?thesis by simp
  next
    case True
    then obtain t1 ts where st: "st = Op Label # t1 # ts"
      using Cons.prems(1) by (cases st; cases "tl st") auto
    let ?k = "value_key (token_value t1)"
    from Cons.prems(1) st obtain h1 where w: "write_prop h (Ref l) ?k (Num (int i)) = Inr h1"
      and rest: "findLabels h1 rest (Ref l) (Suc i) = (None, h')"
      by (auto split: sum.splits)
    from Cons.prems(4) have i: "int i < int n" by simp
    from w Cons.prems(2,3) i have h1: "length h1 = length h" "\<forall>j. j \<noteq> l \<longrightarrow> h1 ! j = h ! j"
      "table_ok (props (h1 ! l)) n"
      by (auto simp: table_ok_obj_set split: if_splits)
    from h1(1) Cons.prems(2) have l1: "l < length h1" by simp
    from Cons.prems(4) have n1: "Suc i + length rest \<le> n" by simp
    from Cons.IH [OF rest l1 h1(3) n1] h1 show ?thesis by simp
  qed
qed

lemma loop_start_inv:
  assumes start: "loop_start w compiled = (None, context, w3)"
  shows "context = Ref (Suc (length (w_heap w))) \<and> loop_inv E w3 (Suc (length (w_heap w))) compiled"
proof -
  let ?l = "length (w_heap w)"
  let ?h2 = "w_heap w @ [\<lparr>ctor = ''Object'', props = []\<rparr>,
               \<lparr>ctor = ''Object'', props = [(''cursor'', Num 0), (''labels'', Ref ?l)]\<rparr>]"
  from start have ctx: "context = Ref (Suc ?l)"
    and scan: "findLabels ?h2 compiled (Ref ?l) 0 = (None, w_heap w3)"
    by (auto simp: loop_start_def alloc_def split: prod.splits)
  have "?l < length ?h2" and "table_ok (props (?h2 ! ?l)) (length compiled)"
    and "0 + length compiled \<le> length compiled"
    by (simp_all add: table_ok_def nth_append)
  from findLabels_scan [OF scan this]
  have len: "length (w_heap w3) = length ?h2"
    and same: "w_heap w3 ! Suc ?l = ?h2 ! Suc ?l"
    and tab: "table_ok (props (w_heap w3 ! ?l)) (length compiled)"
    by simp_all
  from same have c: "w_heap w3 ! Suc ?l
      = \<lparr>ctor = ''Object'', props = [(''cursor'', Num 0), (''labels'', Ref ?l)]\<rparr>"
    by (simp add: nth_append)
  from len c tab have "loop_inv E w3 (Suc ?l) compiled"
    by (simp add: loop_inv_def cursor_in_range_def cursor_of_def label_table_def)
  with ctx show ?thesis by simp
qed

text \<open>A turn that respects the labels keeps the cursor in range.\<close>

lemma loop_iter_inv:
  assumes inv: "loop_inv E w c compiled"
    and ok: "turn_ok E run w compiled (Ref c) input so d"
    and it: "loop_iter E run w compiled (Ref c) input so d = Next w2 input'"
  shows "loop_inv E w2 c compiled"
proof -
  from inv obtain n where cur: "cursor_of E w (Ref c) = Num n"
    by (auto simp: loop_inv_def cursor_in_range_def split: jsval.splits)
  from inv have tab: "table_ok (label_table E w (Ref c)) (length compiled)"
    and lab: "get_prop E (w_heap w) (Ref c) ''labels'' \<noteq> Ref c"
    by (simp_all add: loop_inv_def)
  from it have test: "loop_test E w (Ref c) compiled = Inr True"
    by (auto simp: loop_iter_def split: sum.splits if_splits)
  with it obtain w1 where
    act: "executeAction E run (instr_at compiled (cursor_of E w (Ref c))) (Ref c) input so d w
            = Some (Inr input', w1)"
    and adv: "advance E (Ref c) w1 = (None, w2)"
    by (auto simp: loop_iter_def split: option.splits sum.splits prod.splits)
  from test cur inv have n: "0 \<le> n" "n < int (length compiled)"
    by (auto simp: loop_test_def read_prop_def cursor_of_def js_lt_def loop_inv_def
        cursor_in_range_def)
  from ok act have keep: "keeps_labels E w w1 (Ref c)" and mv: "moves_by_label E w w1 (Ref c)"
    by (simp_all add: turn_ok_def)
  from mv cur n table_ok_member [OF tab]
  obtain m where m: "cursor_of E w1 (Ref c) = Num m" "0 \<le> m" "m < int (length compiled)"
    by (auto simp: moves_by_label_def)
  from m(1) have c1: "c < length (w_heap w1)"
    by (auto simp: cursor_of_def split: if_splits)
  from adv m(1) c1
  have w2: "w2 = w1\<lparr>w_heap := (w_heap w1)[c := (w_heap w1 ! c)\<lparr>props :=
                obj_set ''cursor'' (Num (m + 1)) (props (w_heap w1 ! c))\<rparr>]\<rparr>"
    by (auto simp: advance_def read_prop_def cursor_of_def js_add_def split: sum.splits)
  have cur2: "cursor_of E w2 (Ref c) = Num (m + 1)"
    using c1 by (simp add: w2 cursor_of_def map_of_obj_set)
  have lab2: "get_prop E (w_heap w2) (Ref c) ''labels'' = get_prop E (w_heap w1) (Ref c) ''labels''"
    using c1 by (simp add: w2 map_of_obj_set split: option.splits)
  from keep have lab1: "get_prop E (w_heap w1) (Ref c) ''labels'' = get_prop E (w_heap w) (Ref c) ''labels''"
    and tab1: "label_table E w1 (Ref c) = label_table E w (Ref c)"
    by (simp_all add: keeps_labels_def)
  have tab2: "label_table E w2 (Ref c) = label_table E w1 (Ref c)"
    using lab lab1 lab2 unfolding label_table_def
    by (auto simp: w2 split: jsval.splits)
  from cur2 m lab lab1 lab2 tab tab1 tab2 show ?thesis
    by (simp add: loop_inv_def cursor_in_range_def)
qed

lemma loop_state_inv:
  "loop_inv E w c compiled \<Longrightarrow> turns_ok E run k w compiled (Ref c) input so d \<Longrightarrow>
   loop_state E run k w compiled (Ref c) input so d = Some (w', input') \<Longrightarrow>
   loop_inv E w' c compiled"
proof (induction k arbitrary: w input)
  case 0
  then show ?case by simp
next
  case (Suc k)
  from Suc.prems(3) obtain w2 i2 where
    it: "loop_iter E run w compiled (Ref c) input so d = Next w2 i2"
    and rest: "loop_state E run k w2 compiled (Ref c) i2 so d = Some (w', input')"
    by (auto split: iteration.splits)
  from Suc.prems(2) it have ok: "turn_ok E run w compiled (Ref c) input so d"
    and oks: "turns_ok E run k w2 compiled (Ref c) i2 so d"
    by simp_all
  from Suc.IH [OF loop_iter_inv [OF Suc.prems(1) ok it] oks rest] show ?case .
qed

text \<open>
  A jump that is taken respects the labels when the label table holds its label: \<open>doGoto\<close>
  then sets the cursor to the entry of the table and changes nothing else.
\<close>

lemma goto_step_respects_labels:
  assumes c: "c < length (w_heap w)"
    and lab: "get_prop E (w_heap w) (Ref c) ''labels'' = Ref l" and l: "l < length (w_heap w)" "l \<noteq> c"
    and held: "map_of (props (w_heap w ! l)) (value_key (token_value t1)) = Some v"
  shows "\<exists>w1. goto_step E (t0 # t1 # ts) (Ref c) input w = Some (Inr input, w1) \<and>
           keeps_labels E w w1 (Ref c) \<and> moves_by_label E w w1 (Ref c)"
proof -
  let ?w1 = "w\<lparr>w_heap := (w_heap w)[c := (w_heap w ! c)\<lparr>props :=
                obj_set ''cursor'' v (props (w_heap w ! c))\<rparr>]\<rparr>"
  from c lab l held have go: "goto_step E (t0 # t1 # ts) (Ref c) input w = Some (Inr input, ?w1)"
    by (simp add: goto_step_def step_at_def doGoto_def read_prop_def)
  from c have lab1: "get_prop E (w_heap ?w1) (Ref c) ''labels'' = get_prop E (w_heap w) (Ref c) ''labels''"
    by (simp add: map_of_obj_set split: option.splits)
  with lab l have tab1: "label_table E ?w1 (Ref c) = label_table E w (Ref c)"
    by (simp add: label_table_def)
  from held have "v \<in> snd ` set (props (w_heap w ! l))"
    by (metis map_of_SomeD snd_conv image_eqI)
  with lab l have "v \<in> set (map snd (label_table E w (Ref c)))"
    by (simp add: label_table_def)
  moreover from c have "cursor_of E ?w1 (Ref c) = v"
    by (simp add: cursor_of_def map_of_obj_set)
  ultimately have mv: "moves_by_label E w ?w1 (Ref c)"
    by (simp add: moves_by_label_def)
  from lab1 tab1 have "keeps_labels E w ?w1 (Ref c)"
    unfolding keeps_labels_def by (rule conjI)
  with go mv show ?thesis by blast
qed

text \<open>
  C6, as the code has it.  \<open>execute\<close> starts with the cursor at 0 and a label table whose
  entries, made by the scan, are indices into the program.  After any number of turns of the
  loop, each of which respects the labels (it leaves the label table as it was, and leaves
  the cursor where it was or sets it to an entry of the table), the cursor is a number from
  0 to the length of the program and the entries of the table are still indices into the
  program.
\<close>

theorem cursor_stays_in_range:
  assumes start: "loop_start w compiled = (None, context, w3)"
    and ok: "turns_ok E run k w3 compiled context input srcObject depth"
    and reach: "loop_state E run k w3 compiled context input srcObject depth = Some (w', input')"
  shows "cursor_in_range E w' context compiled \<and>
         table_ok (label_table E w' context) (length compiled)"
proof -
  from loop_start_inv [OF start, of E]
  have ctx: "context = Ref (Suc (length (w_heap w)))"
    and inv: "loop_inv E w3 (Suc (length (w_heap w))) compiled"
    by simp_all
  from loop_state_inv [OF inv ok [unfolded ctx] reach [unfolded ctx]] show ?thesis
    by (simp add: loop_inv_def ctx)
qed

theorem cursor_stays_in_range_witness:
  "loop_start sample_world (compile counter_pipeline)
     = (None, Ref 2,
        sample_world\<lparr>w_heap :=
          [\<lparr>ctor = ''Object'', props = []\<rparr>,
           \<lparr>ctor = ''Object'', props = [(''loop'', Num 1)]\<rparr>,
           \<lparr>ctor = ''Object'', props = [(''cursor'', Num 0), (''labels'', Ref 1)]\<rparr>]\<rparr>) \<and>
   turns_ok sample_host (runPipeline sample_host 0) 12
       (sample_world\<lparr>w_heap :=
          [\<lparr>ctor = ''Object'', props = []\<rparr>,
           \<lparr>ctor = ''Object'', props = [(''loop'', Num 1)]\<rparr>,
           \<lparr>ctor = ''Object'', props = [(''cursor'', Num 0), (''labels'', Ref 1)]\<rparr>]\<rparr>)
       (compile counter_pipeline) (Ref 2) (Ref 0) Undefined 0 \<and>
   loop_state sample_host (runPipeline sample_host 0) 12
       (sample_world\<lparr>w_heap :=
          [\<lparr>ctor = ''Object'', props = []\<rparr>,
           \<lparr>ctor = ''Object'', props = [(''loop'', Num 1)]\<rparr>,
           \<lparr>ctor = ''Object'', props = [(''cursor'', Num 0), (''labels'', Ref 1)]\<rparr>]\<rparr>)
       (compile counter_pipeline) (Ref 2) (Ref 0) Undefined 0
     = Some (sample_world\<lparr>w_heap :=
          [\<lparr>ctor = ''Object'', props = [(''count'', Num 3)]\<rparr>,
           \<lparr>ctor = ''Object'', props = [(''loop'', Num 1)]\<rparr>,
           \<lparr>ctor = ''Object'',
            props = [(''cursor'', Num 6), (''labels'', Ref 1), (''floating'', Bool False)]\<rparr>]\<rparr>,
        Undefined) \<and>
   cursor_in_range sample_host
     (sample_world\<lparr>w_heap :=
          [\<lparr>ctor = ''Object'', props = [(''count'', Num 3)]\<rparr>,
           \<lparr>ctor = ''Object'', props = [(''loop'', Num 1)]\<rparr>,
           \<lparr>ctor = ''Object'',
            props = [(''cursor'', Num 6), (''labels'', Ref 1), (''floating'', Bool False)]\<rparr>]\<rparr>)
     (Ref 2) (compile counter_pipeline)"
proof -
  let ?w3 = "sample_world\<lparr>w_heap :=
          [\<lparr>ctor = ''Object'', props = []\<rparr>,
           \<lparr>ctor = ''Object'', props = [(''loop'', Num 1)]\<rparr>,
           \<lparr>ctor = ''Object'', props = [(''cursor'', Num 0), (''labels'', Ref 1)]\<rparr>]\<rparr>"
  let ?w' = "sample_world\<lparr>w_heap :=
          [\<lparr>ctor = ''Object'', props = [(''count'', Num 3)]\<rparr>,
           \<lparr>ctor = ''Object'', props = [(''loop'', Num 1)]\<rparr>,
           \<lparr>ctor = ''Object'',
            props = [(''cursor'', Num 6), (''labels'', Ref 1), (''floating'', Bool False)]\<rparr>]\<rparr>"
  have start: "loop_start sample_world (compile counter_pipeline) = (None, Ref 2, ?w3)"
    by code_simp
  have ok: "turns_ok sample_host (runPipeline sample_host 0) 12 ?w3 (compile counter_pipeline)
      (Ref 2) (Ref 0) Undefined 0"
    by code_simp
  have reach: "loop_state sample_host (runPipeline sample_host 0) 12 ?w3 (compile counter_pipeline)
      (Ref 2) (Ref 0) Undefined 0 = Some (?w', Undefined)"
    by code_simp
  from cursor_stays_in_range [OF start ok reach]
  have "cursor_in_range sample_host ?w' (Ref 2) (compile counter_pipeline)" by simp
  with start ok reach show ?thesis
    by simp
qed

text \<open>
  The one-line program \<open>goto nowhere\<close>: the scan records nothing, the jump stores
  \<open>labels["nowhere"]\<close>, which is \<open>undefined\<close>, in the cursor, and the increment makes it \<open>NaN\<close>:
  at the next loop test the cursor is not in range.  The one-line program \<open>set cursor 9\<close>,
  which has no jump: the assignment writes the cursor of the context, and after the increment
  the cursor is 10, beyond the length 1 of the program.  The program \<open>label a\<close>,
  \<open>set labels.a 9\<close>, \<open>goto a\<close>, whose one jump names a label that the scan recorded: the
  assignment changes the entry of the label table, and after the jump and the increment the
  cursor is 10, beyond the length 3 of the program.
\<close>

theorem cursor_unrecorded_label_counterexample:
  "loop_start sample_world (compile [''goto nowhere''])
     = (None, Ref 2,
        sample_world\<lparr>w_heap :=
          [\<lparr>ctor = ''Object'', props = []\<rparr>, \<lparr>ctor = ''Object'', props = []\<rparr>,
           \<lparr>ctor = ''Object'', props = [(''cursor'', Num 0), (''labels'', Ref 1)]\<rparr>]\<rparr>) \<and>
   loop_state sample_host (runPipeline sample_host 0) 1
       (sample_world\<lparr>w_heap :=
          [\<lparr>ctor = ''Object'', props = []\<rparr>, \<lparr>ctor = ''Object'', props = []\<rparr>,
           \<lparr>ctor = ''Object'', props = [(''cursor'', Num 0), (''labels'', Ref 1)]\<rparr>]\<rparr>)
       (compile [''goto nowhere'']) (Ref 2) (Ref 0) Undefined 0
     = Some (sample_world\<lparr>w_heap :=
          [\<lparr>ctor = ''Object'', props = []\<rparr>, \<lparr>ctor = ''Object'', props = []\<rparr>,
           \<lparr>ctor = ''Object'', props = [(''cursor'', NaN), (''labels'', Ref 1)]\<rparr>]\<rparr>, Ref 0) \<and>
   \<not> cursor_in_range sample_host
       (sample_world\<lparr>w_heap :=
          [\<lparr>ctor = ''Object'', props = []\<rparr>, \<lparr>ctor = ''Object'', props = []\<rparr>,
           \<lparr>ctor = ''Object'', props = [(''cursor'', NaN), (''labels'', Ref 1)]\<rparr>]\<rparr>)
       (Ref 2) (compile [''goto nowhere'']) \<and>
   loop_start sample_world (compile [''set cursor 9''])
     = (None, Ref 2,
        sample_world\<lparr>w_heap :=
          [\<lparr>ctor = ''Object'', props = []\<rparr>, \<lparr>ctor = ''Object'', props = []\<rparr>,
           \<lparr>ctor = ''Object'', props = [(''cursor'', Num 0), (''labels'', Ref 1)]\<rparr>]\<rparr>) \<and>
   loop_state sample_host (runPipeline sample_host 0) 1
       (sample_world\<lparr>w_heap :=
          [\<lparr>ctor = ''Object'', props = []\<rparr>, \<lparr>ctor = ''Object'', props = []\<rparr>,
           \<lparr>ctor = ''Object'', props = [(''cursor'', Num 0), (''labels'', Ref 1)]\<rparr>]\<rparr>)
       (compile [''set cursor 9'']) (Ref 2) (Ref 0) Undefined 0
     = Some (sample_world\<lparr>w_heap :=
          [\<lparr>ctor = ''Object'', props = []\<rparr>, \<lparr>ctor = ''Object'', props = []\<rparr>,
           \<lparr>ctor = ''Object'', props = [(''cursor'', Num 10), (''labels'', Ref 1)]\<rparr>]\<rparr>, Ref 0) \<and>
   \<not> cursor_in_range sample_host
       (sample_world\<lparr>w_heap :=
          [\<lparr>ctor = ''Object'', props = []\<rparr>, \<lparr>ctor = ''Object'', props = []\<rparr>,
           \<lparr>ctor = ''Object'', props = [(''cursor'', Num 10), (''labels'', Ref 1)]\<rparr>]\<rparr>)
       (Ref 2) (compile [''set cursor 9'']) \<and>
   loop_start sample_world (compile [''label a'', ''set labels.a 9'', ''goto a''])
     = (None, Ref 2,
        sample_world\<lparr>w_heap :=
          [\<lparr>ctor = ''Object'', props = []\<rparr>, \<lparr>ctor = ''Object'', props = [(''a'', Num 0)]\<rparr>,
           \<lparr>ctor = ''Object'', props = [(''cursor'', Num 0), (''labels'', Ref 1)]\<rparr>]\<rparr>) \<and>
   loop_state sample_host (runPipeline sample_host 0) 3
       (sample_world\<lparr>w_heap :=
          [\<lparr>ctor = ''Object'', props = []\<rparr>, \<lparr>ctor = ''Object'', props = [(''a'', Num 0)]\<rparr>,
           \<lparr>ctor = ''Object'', props = [(''cursor'', Num 0), (''labels'', Ref 1)]\<rparr>]\<rparr>)
       (compile [''label a'', ''set labels.a 9'', ''goto a'']) (Ref 2) (Ref 0) Undefined 0
     = Some (\<lparr>w_cont = Container ((own new_Container)\<lparr>bestKeys := [(''labels'', None)]\<rparr>) None,
              w_heap =
                [\<lparr>ctor = ''Object'', props = []\<rparr>, \<lparr>ctor = ''Object'', props = [(''a'', Num 9)]\<rparr>,
                 \<lparr>ctor = ''Object'', props = [(''cursor'', Num 10), (''labels'', Ref 1)]\<rparr>]\<rparr>,
             Ref 0) \<and>
   \<not> cursor_in_range sample_host
       \<lparr>w_cont = Container ((own new_Container)\<lparr>bestKeys := [(''labels'', None)]\<rparr>) None,
        w_heap =
          [\<lparr>ctor = ''Object'', props = []\<rparr>, \<lparr>ctor = ''Object'', props = [(''a'', Num 9)]\<rparr>,
           \<lparr>ctor = ''Object'', props = [(''cursor'', Num 10), (''labels'', Ref 1)]\<rparr>]\<rparr>
       (Ref 2) (compile [''label a'', ''set labels.a 9'', ''goto a''])"
  by code_simp

end
